theory Spec2Isabelle
  imports Complex_Main
begin

section \<open>Data model\<close>

text \<open>
  The services of the rental marketplace (wallet, rental, sponsorship) are thin handlers
  over a relational store reached through Prisma. The store is modelled as a record of
  tables, each table a list of rows in insertion order. Every service method becomes a
  function from the store (and its arguments) to an outcome paired with the store after
  the call, so that writes made before an exception is thrown stay visible.

  Conventions of the embedding:
  \<^item> identifiers are strings; an identifier that the database generates for a new row
    (a uuid) is an argument of the operation that inserts the row;
  \<^item> \<open>new Date()\<close> is the argument \<open>now\<close>, in milliseconds since the epoch;
  \<^item> amounts (the \<open>number\<close> fields stored as DOUBLE PRECISION) are exact rationals;
  \<^item> an exception is the left injection of the outcome, carrying the message of the source
    (messages that have diacritics in the source are written without them).
\<close>

type_synonym ident = string
type_synonym instant = int
type_synonym money = rat

datatype http_error =
    NotFoundException string
  | BadRequestException string
  | ForbiddenException string
  | PrismaRecordNotFound
  | TypeError

datatype WalletTransactionType =
  DEPOSIT | WITHDRAWAL | PAYMENT | REFUND | PRIORITY_FEE | PROMOTION_FEE | COMMISSION | BONUS

datatype WalletTransactionStatus =
  WTS_PENDING | WTS_PROCESSING | WTS_COMPLETED | WTS_FAILED | WTS_CANCELLED | WTS_REFUNDED

text \<open>
  Modelled from the spec: the enums \<open>RentalStatus\<close>, \<open>PaymentStatus\<close>,
  \<open>PaymentReceiptStatus\<close>, \<open>PaymentMethod\<close>, \<open>PricePeriod\<close> and
  \<open>SponsorshipStatus\<close> of the Prisma schema, which is not among the sources; the values
  are the ones the spec lists, and they are the ones the services write and compare.
\<close>

datatype RentalStatus =
  RS_PENDING | RS_APPROVED | RS_PAID | RS_ACTIVE | RS_COMPLETED | RS_CANCELLED | RS_REJECTED

datatype PaymentStatus = PS_PENDING | PS_PAID

datatype PaymentReceiptStatus = RC_PENDING | RC_APPROVED | RC_REJECTED

datatype PaymentMethod = REFERENCE | RECEIPT | WALLET

datatype PricePeriod = HOURLY | DAILY | WEEKLY | MONTHLY

datatype SponsorshipStatus = SP_ACTIVE | SP_PAUSED | SP_EXPIRED | SP_CANCELLED

record user =
  u_id :: ident
  u_fullName :: string
  u_userType :: string

record wallet =
  w_id :: ident
  w_userId :: ident
  w_balance :: money
  w_isActive :: bool

record walletTransaction =
  t_id :: ident
  t_walletId :: ident
  t_type :: WalletTransactionType
  t_amount :: money
  t_description :: string
  t_status :: WalletTransactionStatus
  t_reference :: "string option"
  t_proxyPayReference :: "string option"
  t_proxyPayId :: "string option"
  t_metadata :: "(string \<times> string) list"

record CreateWalletDto =
  cw_userId :: ident
  cw_initialBalance :: "money option"

record CreateWalletTransactionDto =
  ct_walletId :: ident
  ct_type :: WalletTransactionType
  ct_amount :: money
  ct_description :: string
  ct_reference :: "string option"
  ct_proxyPayReference :: "string option"
  ct_proxyPayId :: "string option"
  ct_status :: "WalletTransactionStatus option"
  ct_metadata :: "(string \<times> string) list"

text \<open>
  The rows of equipment, rentals and sponsorships carry the columns that the modelled
  methods read or write; columns that are only copied through (coordinates, addresses,
  times of day, images, counters) are left out.
\<close>

record equipment =
  e_id :: ident
  e_ownerId :: ident
  e_name :: string
  e_isAvailable :: bool
  e_price :: "money option"
  e_pricePeriod :: "PricePeriod option"
  e_deletedAt :: "instant option"

record rental =
  r_id :: ident
  r_equipmentId :: ident
  r_renterId :: ident
  r_ownerId :: ident
  r_startDate :: instant
  r_endDate :: instant
  r_totalAmount :: money
  r_dailyRate :: money
  r_maxRentalDays :: "int option"
  r_pricePeriod :: "PricePeriod option"
  r_paymentMethod :: PaymentMethod
  r_paymentReference :: "string option"
  r_returnReminderDate :: instant
  r_returnNotificationSent :: bool
  r_status :: RentalStatus
  r_paymentStatus :: PaymentStatus
  r_paymentReceiptStatus :: "PaymentReceiptStatus option"
  r_hasPriority :: bool
  r_priorityAmount :: "money option"
  r_priorityPaidAt :: "instant option"
  r_approvedAt :: "instant option"
  r_deletedAt :: "instant option"

record CreateRentalDto =
  cr_renterId :: ident
  cr_equipmentId :: ident
  cr_startDate :: instant
  cr_endDate :: instant
  cr_totalAmount :: "money option"
  cr_dailyRate :: "money option"
  cr_pricePeriod :: "PricePeriod option"
  cr_maxRentalDays :: "int option"
  cr_paymentMethod :: PaymentMethod
  cr_paymentReference :: "string option"
  cr_hasPriority :: "bool option"
  cr_priorityAmount :: "money option"

record adSponsorship =
  a_id :: ident
  a_sponsorId :: ident
  a_targetUserId :: "ident option"
  a_equipmentId :: "ident option"
  a_amount :: money
  a_duration :: int
  a_startDate :: instant
  a_endDate :: instant
  a_status :: SponsorshipStatus

record CreateSponsorshipDto =
  cs_targetUserId :: "ident option"
  cs_equipmentId :: "ident option"
  cs_amount :: money
  cs_duration :: int

text \<open>
  The answer of the payment gateway (\<open>ProxyPayResponse\<close>); the gateway is outside the
  store, so its answer is an argument of the method that calls it.
\<close>

record ProxyPayResponse =
  pp_success :: bool
  pp_transactionId :: string
  pp_reference :: string
  pp_paymentUrl :: "string option"
  pp_error :: "string option"

record ProxyPayDepositDto =
  pd_amount :: money
  pd_paymentMethod :: string
  pd_phoneNumber :: "string option"

record db =
  users :: "user list"
  equipments :: "equipment list"
  rentals :: "rental list"
  wallets :: "wallet list"
  walletTransactions :: "walletTransaction list"
  adSponsorships :: "adSponsorship list"

section \<open>Store primitives\<close>

text \<open>
  \<open>updateMany\<close> (and \<open>update\<close> on a key that is known to be present) rewrites the rows that
  match; \<open>findFirst\<close> and \<open>findUnique\<close> are \<open>find\<close>, \<open>findMany\<close> is \<open>filter\<close>.
\<close>

definition updateWhere :: "('a \<Rightarrow> bool) \<Rightarrow> ('a \<Rightarrow> 'a) \<Rightarrow> 'a list \<Rightarrow> 'a list" where
  "updateWhere P f xs = map (\<lambda>x. if P x then f x else x) xs"

text \<open>
  \<open>prisma.rental.update\<close> and \<open>prisma.equipment.update\<close> by id: Prisma raises (P2025) when
  no row has the id; otherwise the row is rewritten and returned.
\<close>

definition rentalUpdate :: "db \<Rightarrow> ident \<Rightarrow> (rental \<Rightarrow> rental) \<Rightarrow> (http_error + rental) \<times> db" where
  "rentalUpdate s rid f =
     (case find (\<lambda>r. r_id r = rid) (rentals s) of
        None \<Rightarrow> (Inl PrismaRecordNotFound, s)
      | Some r \<Rightarrow> (Inr (f r), s\<lparr>rentals := updateWhere (\<lambda>r. r_id r = rid) f (rentals s)\<rparr>))"

definition equipmentUpdate ::
  "db \<Rightarrow> ident \<Rightarrow> (equipment \<Rightarrow> equipment) \<Rightarrow> (http_error + equipment) \<times> db" where
  "equipmentUpdate s eid f =
     (case find (\<lambda>e. e_id e = eid) (equipments s) of
        None \<Rightarrow> (Inl PrismaRecordNotFound, s)
      | Some e \<Rightarrow> (Inr (f e), s\<lparr>equipments := updateWhere (\<lambda>e. e_id e = eid) f (equipments s)\<rparr>))"

text \<open>JavaScript truthiness of an optional string, and the decimal text of a number.\<close>

definition truthy :: "string option \<Rightarrow> bool" where
  "truthy x = (case x of None \<Rightarrow> False | Some v \<Rightarrow> v \<noteq> [])"

function decimalNat :: "nat \<Rightarrow> string" where
  "decimalNat n =
     (if n < 10 then [''0123456789'' ! n]
      else decimalNat (n div 10) @ [''0123456789'' ! (n mod 10)])"
  by pat_completeness auto
termination
  by (relation "measure id") auto

definition decimal :: "int \<Rightarrow> string" where
  "decimal i = (if i < 0 then ''-'' @ decimalNat (nat (- i)) else decimalNat (nat i))"

definition msPerHour :: int where
  "msPerHour = 1000 * 60 * 60"

definition msPerDay :: int where
  "msPerDay = 1000 * 60 * 60 * 24"

section \<open>Wallet service\<close>

text \<open>
  \<open>prisma.wallet.update\<close> with \<open>balance: { increment: amount }\<close> on the row of one id;
  the caller has just read that row by the same id.
\<close>

definition incrementBalance :: "ident \<Rightarrow> money \<Rightarrow> wallet list \<Rightarrow> wallet list" where
  "incrementBalance wid amount ws =
     updateWhere (\<lambda>w. w_id w = wid) (\<lambda>w. w\<lparr>w_balance := w_balance w + amount\<rparr>) ws"

text \<open>
  \<open>WalletService.createTransaction\<close>. The \<open>status\<close> of the request is not among the
  fields the method destructures; the row is written with \<open>COMPLETED\<close>.
\<close>

definition createTransaction ::
  "db \<Rightarrow> ident \<Rightarrow> CreateWalletTransactionDto \<Rightarrow> (http_error + walletTransaction) \<times> db" where
  "createTransaction s newId dto =
     (case find (\<lambda>w. w_id w = ct_walletId dto) (wallets s) of
        None \<Rightarrow> (Inl (NotFoundException ''Wallet not found''), s)
      | Some wallet \<Rightarrow>
          if ct_amount dto < 0 \<and> w_balance wallet + ct_amount dto < 0
          then (Inl (BadRequestException ''Insufficient balance''), s)
          else
            let transaction =
                  \<lparr> t_id = newId,
                    t_walletId = ct_walletId dto,
                    t_type = ct_type dto,
                    t_amount = ct_amount dto,
                    t_description = ct_description dto,
                    t_status = WTS_COMPLETED,
                    t_reference = ct_reference dto,
                    t_proxyPayReference = ct_proxyPayReference dto,
                    t_proxyPayId = ct_proxyPayId dto,
                    t_metadata = ct_metadata dto \<rparr>;
                s1 = s\<lparr>walletTransactions := walletTransactions s @ [transaction]\<rparr>;
                s2 = s1\<lparr>wallets := incrementBalance (ct_walletId dto) (ct_amount dto) (wallets s1)\<rparr>
            in (Inr transaction, s2))"

text \<open>
  \<open>WalletService.createWallet\<close>. The default \<open>initialBalance = 0\<close> of the destructuring
  applies when the field is absent. The method returns the row as inserted.
\<close>

definition createWallet ::
  "db \<Rightarrow> ident \<Rightarrow> ident \<Rightarrow> CreateWalletDto \<Rightarrow> (http_error + wallet) \<times> db" where
  "createWallet s newWalletId newTxId dto =
     (let userId = cw_userId dto;
          initialBalance = (case cw_initialBalance dto of None \<Rightarrow> 0 | Some b \<Rightarrow> b)
      in case find (\<lambda>u. u_id u = userId) (users s) of
           None \<Rightarrow> (Inl (NotFoundException ''User not found''), s)
         | Some _ \<Rightarrow>
             (case find (\<lambda>w. w_userId w = userId) (wallets s) of
                Some _ \<Rightarrow> (Inl (BadRequestException ''User already has a wallet''), s)
              | None \<Rightarrow>
                  let wallet = \<lparr> w_id = newWalletId, w_userId = userId,
                                 w_balance = initialBalance, w_isActive = True \<rparr>;
                      s1 = s\<lparr>wallets := wallets s @ [wallet]\<rparr>
                  in if initialBalance > 0
                     then (case createTransaction s1 newTxId
                                  \<lparr> ct_walletId = w_id wallet,
                                    ct_type = DEPOSIT,
                                    ct_amount = initialBalance,
                                    ct_description = ''Saldo inicial da carteira'',
                                    ct_reference = Some (''INITIAL_'' @ w_id wallet),
                                    ct_proxyPayReference = None,
                                    ct_proxyPayId = None,
                                    ct_status = None,
                                    ct_metadata = [] \<rparr> of
                             (Inl e, s2) \<Rightarrow> (Inl e, s2)
                           | (Inr _, s2) \<Rightarrow> (Inr wallet, s2))
                     else (Inr wallet, s1)))"

text \<open>\<open>WalletService.getWalletByUserId\<close>: the wallet of the user, created on first access.\<close>

definition getWalletByUserId ::
  "db \<Rightarrow> ident \<Rightarrow> ident \<Rightarrow> ident \<Rightarrow> (http_error + wallet) \<times> db" where
  "getWalletByUserId s newWalletId newTxId userId =
     (case find (\<lambda>w. w_userId w = userId) (wallets s) of
        None \<Rightarrow> createWallet s newWalletId newTxId \<lparr> cw_userId = userId, cw_initialBalance = None \<rparr>
      | Some wallet \<Rightarrow> (Inr wallet, s))"

text \<open>The ledger of a wallet: the amounts of its \<open>COMPLETED\<close> transactions, summed.\<close>

definition completedSum :: "db \<Rightarrow> ident \<Rightarrow> money" where
  "completedSum s wid =
     sum_list (map t_amount
       (filter (\<lambda>t. t_walletId t = wid \<and> t_status t = WTS_COMPLETED) (walletTransactions s)))"

definition balanceOf :: "db \<Rightarrow> ident \<Rightarrow> money option" where
  "balanceOf s wid = map_option w_balance (find (\<lambda>w. w_id w = wid) (wallets s))"

text \<open>
  \<open>WalletService.depositViaProxyPay\<close>. The call to the gateway sits between the reads and
  the write; its answer is \<open>resp\<close>. The request built for \<open>createTransaction\<close> carries
  \<open>status: PENDING\<close>. Of the metadata, the two entries that are always present are kept.
  The method returns the transaction and the balance it read before the write.
\<close>

definition depositViaProxyPay ::
  "db \<Rightarrow> ident \<Rightarrow> ident \<Rightarrow> ident \<Rightarrow> ProxyPayDepositDto \<Rightarrow> ProxyPayResponse
     \<Rightarrow> (http_error + walletTransaction \<times> money) \<times> db" where
  "depositViaProxyPay s newWalletId newTxId userId depositDto resp =
     (if pd_amount depositDto \<le> 0
      then (Inl (BadRequestException ''Amount must be positive''), s)
      else
        case getWalletByUserId s newWalletId newTxId userId of
          (Inl e, s1) \<Rightarrow> (Inl e, s1)
        | (Inr wallet, s1) \<Rightarrow>
            (case find (\<lambda>u. u_id u = userId) (users s1) of
               None \<Rightarrow> (Inl (NotFoundException ''User not found''), s1)
             | Some user \<Rightarrow>
                 if \<not> pp_success resp
                 then (Inl (BadRequestException
                        (''ProxyPay deposit failed: '' @
                           (case pp_error resp of None \<Rightarrow> ''undefined'' | Some m \<Rightarrow> m))), s1)
                 else
                   (case createTransaction s1 newTxId
                           \<lparr> ct_walletId = w_id wallet,
                             ct_type = DEPOSIT,
                             ct_amount = pd_amount depositDto,
                             ct_description = ''Deposito via ProxyPay - '' @ pd_paymentMethod depositDto,
                             ct_reference = Some (pp_reference resp),
                             ct_proxyPayReference = Some (pp_reference resp),
                             ct_proxyPayId = Some (pp_transactionId resp),
                             ct_status = Some WTS_PENDING,
                             ct_metadata =
                               [(''gateway'', ''proxypay''),
                                (''paymentMethod'', pd_paymentMethod depositDto)] \<rparr> of
                      (Inl e, s2) \<Rightarrow> (Inl e, s2)
                    | (Inr transaction, s2) \<Rightarrow> (Inr (transaction, w_balance wallet), s2))))"

section \<open>Rental service\<close>

text \<open>
  \<open>today.setHours(0, 0, 0, 0)\<close>: midnight before \<open>now\<close>, for a server whose clock is UTC.
\<close>

definition startOfDay :: "instant \<Rightarrow> instant" where
  "startOfDay now = now - now mod msPerDay"

text \<open>\<open>Math.ceil((endDate.getTime() - startDate.getTime()) / (1000 * 60 * 60 * 24))\<close>.\<close>

definition rentalDays :: "instant \<Rightarrow> instant \<Rightarrow> int" where
  "rentalDays startDate endDate = \<lceil>(of_int (endDate - startDate) :: rat) / of_int msPerDay\<rceil>"

text \<open>The \<open>switch\<close> on the price period inside \<open>RentalService.create\<close>.\<close>

definition totalForPeriod :: "PricePeriod option \<Rightarrow> money \<Rightarrow> int \<Rightarrow> money" where
  "totalForPeriod period dailyRate days =
     (case period of
        Some HOURLY \<Rightarrow> dailyRate * of_int days * 8
      | Some WEEKLY \<Rightarrow> (let weeks = \<lceil>(of_int days :: rat) / 7\<rceil> in dailyRate * of_int weeks)
      | Some MONTHLY \<Rightarrow> (let months = \<lceil>(of_int days :: rat) / 30\<rceil> in dailyRate * of_int months)
      | _ \<Rightarrow> dailyRate * of_int days)"

text \<open>\<open>a || b\<close> on optional numbers and on optional enum values.\<close>

definition orNumber :: "money option \<Rightarrow> money option \<Rightarrow> money option" where
  "orNumber a b = (case a of None \<Rightarrow> b | Some x \<Rightarrow> if x = 0 then b else Some x)"

definition orPeriod :: "PricePeriod option \<Rightarrow> PricePeriod option \<Rightarrow> PricePeriod option" where
  "orPeriod a b = (case a of None \<Rightarrow> b | Some x \<Rightarrow> Some x)"

definition clearPriority :: "rental \<Rightarrow> rental" where
  "clearPriority r = r\<lparr>r_hasPriority := False, r_priorityAmount := None, r_priorityPaidAt := None\<rparr>"

text \<open>
  The priority fee of \<open>RentalService.create\<close>: a \<open>try\<close> block whose \<open>catch\<close> clears the
  priority columns of the new rental. At most one transaction row is inserted, so one
  fresh transaction id serves.
\<close>

definition processPriority :: "db \<Rightarrow> ident \<Rightarrow> ident \<Rightarrow> rental \<Rightarrow> equipment \<Rightarrow> money \<Rightarrow> db" where
  "processPriority s newWalletId newTxId rental equipment priorityAmount =
     (case getWalletByUserId s newWalletId newTxId (r_renterId rental) of
        (Inl e, s1) \<Rightarrow> snd (rentalUpdate s1 (r_id rental) clearPriority)
      | (Inr wallet, s1) \<Rightarrow>
          if w_balance wallet \<ge> priorityAmount
          then (case createTransaction s1 newTxId
                       \<lparr> ct_walletId = w_id wallet,
                         ct_type = PRIORITY_FEE,
                         ct_amount = - priorityAmount,
                         ct_description = ''Taxa de prioridade - Aluguel '' @ e_name equipment,
                         ct_reference = None,
                         ct_proxyPayReference = None,
                         ct_proxyPayId = None,
                         ct_status = Some WTS_COMPLETED,
                         ct_metadata = [(''rentalId'', r_id rental), (''equipmentId'', e_id equipment)] \<rparr> of
                  (Inl e, s2) \<Rightarrow> snd (rentalUpdate s2 (r_id rental) clearPriority)
                | (Inr _, s2) \<Rightarrow> s2)
          else snd (rentalUpdate s1 (r_id rental) clearPriority))"

text \<open>\<open>RentalService.create\<close>.\<close>

definition create ::
  "db \<Rightarrow> instant \<Rightarrow> ident \<Rightarrow> ident \<Rightarrow> ident \<Rightarrow> CreateRentalDto \<Rightarrow> (http_error + rental) \<times> db" where
  "create s now newRentalId newWalletId newTxId dto =
     (case find (\<lambda>e. e_id e = cr_equipmentId dto \<and> e_deletedAt e = None) (equipments s) of
        None \<Rightarrow> (Inl (NotFoundException ''Equipment not found''), s)
      | Some equipment \<Rightarrow>
          if \<not> e_isAvailable equipment
          then (Inl (BadRequestException ''Equipment is not available''), s)
          else if e_ownerId equipment = cr_renterId dto
          then (Inl (BadRequestException ''You cannot rent your own equipment''), s)
          else
            (case find (\<lambda>u. u_id u = cr_renterId dto) (users s) of
               None \<Rightarrow> (Inl (NotFoundException ''Renter not found''), s)
             | Some renter \<Rightarrow>
                 if u_userType renter = ''LANDLORD''
                 then (Inl (BadRequestException
                        ''Landlords cannot rent equipment. Only tenants can rent equipment.''), s)
                 else
                   let startDate = cr_startDate dto;
                       endDate = cr_endDate dto;
                       today = startOfDay now
                   in if startDate < today
                      then (Inl (BadRequestException ''Start date cannot be in the past''), s)
                      else if endDate \<le> startDate
                      then (Inl (BadRequestException ''End date must be after start date''), s)
                      else
                        let days = rentalDays startDate endDate
                        in if (case cr_maxRentalDays dto of
                                 None \<Rightarrow> False | Some m \<Rightarrow> m \<noteq> 0 \<and> days > m)
                           then (Inl (BadRequestException
                                  (''Rental period cannot exceed '' @
                                     (case cr_maxRentalDays dto of
                                        None \<Rightarrow> [] | Some m \<Rightarrow> decimal m) @ '' days'')), s)
                           else
                             let dailyRate =
                                   (case orNumber (cr_dailyRate dto) (e_price equipment) of
                                      None \<Rightarrow> 0 | Some d \<Rightarrow> d);
                                 totalAmount =
                                   (case orNumber (cr_totalAmount dto) None of
                                      None \<Rightarrow>
                                        totalForPeriod
                                          (orPeriod (cr_pricePeriod dto) (e_pricePeriod equipment))
                                          dailyRate days
                                    | Some t \<Rightarrow> t);
                                 returnReminderDate = endDate - msPerDay;
                                 hasPriority = (cr_hasPriority dto = Some True);
                                 rental =
                                   \<lparr> r_id = newRentalId,
                                     r_equipmentId = cr_equipmentId dto,
                                     r_renterId = cr_renterId dto,
                                     r_ownerId = e_ownerId equipment,
                                     r_startDate = startDate,
                                     r_endDate = endDate,
                                     r_totalAmount = totalAmount,
                                     r_dailyRate = dailyRate,
                                     r_maxRentalDays = cr_maxRentalDays dto,
                                     r_pricePeriod =
                                       orPeriod (cr_pricePeriod dto) (e_pricePeriod equipment),
                                     r_paymentMethod = cr_paymentMethod dto,
                                     r_paymentReference = cr_paymentReference dto,
                                     r_returnReminderDate = returnReminderDate,
                                     r_returnNotificationSent = False,
                                     r_status = RS_PENDING,
                                     r_paymentStatus = PS_PENDING,
                                     r_paymentReceiptStatus =
                                       (if cr_paymentMethod dto = RECEIPT
                                        then Some RC_PENDING else None),
                                     r_hasPriority = hasPriority,
                                     r_priorityAmount = cr_priorityAmount dto,
                                     r_priorityPaidAt = (if hasPriority then Some now else None),
                                     r_approvedAt = None,
                                     r_deletedAt = None \<rparr>;
                                 s1 = s\<lparr>rentals := rentals s @ [rental]\<rparr>
                             in case (if hasPriority
                                      then orNumber (cr_priorityAmount dto) None else None) of
                                  Some priorityAmount \<Rightarrow>
                                    (Inr rental,
                                     processPriority s1 newWalletId newTxId rental equipment
                                       priorityAmount)
                                | None \<Rightarrow> (Inr rental, s1)))"

text \<open>
  \<open>RentalService.findOne\<close>: the rental of the id that is not soft-deleted; the permission
  check runs when a (non-empty) user id is given.
\<close>

definition findOne :: "db \<Rightarrow> ident \<Rightarrow> ident option \<Rightarrow> http_error + rental" where
  "findOne s rid userId =
     (case find (\<lambda>r. r_id r = rid \<and> r_deletedAt r = None) (rentals s) of
        None \<Rightarrow> Inl (NotFoundException ''Rental not found'')
      | Some rental \<Rightarrow>
          if truthy userId \<and> Some (r_renterId rental) \<noteq> userId \<and> Some (r_ownerId rental) \<noteq> userId
          then Inl (ForbiddenException ''You do not have permission to view this rental'')
          else Inr rental)"

text \<open>
  The query that \<open>updateStatus\<close> runs after a cancellation or rejection: a rental of the
  equipment that is APPROVED, PAID or ACTIVE and has not ended.
\<close>

definition isHeld :: "ident \<Rightarrow> instant \<Rightarrow> rental \<Rightarrow> bool" where
  "isHeld eid now r =
     (r_equipmentId r = eid
      \<and> (r_status r = RS_APPROVED \<or> r_status r = RS_PAID \<or> r_status r = RS_ACTIVE)
      \<and> r_endDate r \<ge> now)"

text \<open>The three writes that follow an approval.\<close>

definition approveEffects :: "db \<Rightarrow> instant \<Rightarrow> rental \<Rightarrow> (http_error + rental) \<times> db" where
  "approveEffects s now rental =
     (case equipmentUpdate s (r_equipmentId rental) (\<lambda>e. e\<lparr>e_isAvailable := False\<rparr>) of
        (Inl e, s1) \<Rightarrow> (Inl e, s1)
      | (Inr _, s1) \<Rightarrow>
          let s2 = s1\<lparr>rentals :=
                       updateWhere
                         (\<lambda>r. r_equipmentId r = r_equipmentId rental \<and> r_status r = RS_PENDING
                              \<and> r_id r \<noteq> r_id rental)
                         (\<lambda>r. r\<lparr>r_status := RS_REJECTED\<rparr>) (rentals s1)\<rparr>
          in rentalUpdate s2 (r_id rental) (\<lambda>r. r\<lparr>r_approvedAt := Some now\<rparr>))"

text \<open>The conditional release of the equipment after a cancellation or rejection.\<close>

definition releaseEffects :: "db \<Rightarrow> instant \<Rightarrow> rental \<Rightarrow> (http_error + unit) \<times> db" where
  "releaseEffects s now rental =
     (case find (isHeld (r_equipmentId rental) now) (rentals s) of
        None \<Rightarrow>
          (case equipmentUpdate s (r_equipmentId rental) (\<lambda>e. e\<lparr>e_isAvailable := True\<rparr>) of
             (Inl e, s1) \<Rightarrow> (Inl e, s1)
           | (Inr _, s1) \<Rightarrow> (Inr (), s1))
      | Some hasApprovedRentals \<Rightarrow> (Inr (), s))"

text \<open>\<open>RentalService.updateStatus\<close>.\<close>

definition updateStatus ::
  "db \<Rightarrow> instant \<Rightarrow> ident \<Rightarrow> RentalStatus \<Rightarrow> ident \<Rightarrow> (http_error + rental) \<times> db" where
  "updateStatus s now rid status userId =
     (case findOne s rid (Some userId) of
        Inl e \<Rightarrow> (Inl e, s)
      | Inr rental \<Rightarrow>
          if status = RS_APPROVED \<and> r_ownerId rental \<noteq> userId
          then (Inl (ForbiddenException ''Only the owner can approve rentals''), s)
          else if status = RS_CANCELLED \<and> r_renterId rental \<noteq> userId \<and> r_ownerId rental \<noteq> userId
          then (Inl (ForbiddenException ''Only the renter or owner can cancel rentals''), s)
          else
            (case rentalUpdate s (r_id rental) (\<lambda>r. r\<lparr>r_status := status\<rparr>) of
               (Inl e, s1) \<Rightarrow> (Inl e, s1)
             | (Inr updatedRental, s1) \<Rightarrow>
                 (case (if status = RS_APPROVED then approveEffects s1 now rental
                        else (Inr updatedRental, s1)) of
                    (Inl e, s2) \<Rightarrow> (Inl e, s2)
                  | (Inr _, s2) \<Rightarrow>
                      (case (if status = RS_CANCELLED \<or> status = RS_REJECTED
                             then releaseEffects s2 now rental else (Inr (), s2)) of
                         (Inl e, s3) \<Rightarrow> (Inl e, s3)
                       | (Inr _, s3) \<Rightarrow> (Inr updatedRental, s3)))))"

text \<open>\<open>RentalService.cancelRental\<close>.\<close>

definition cancelRental :: "db \<Rightarrow> instant \<Rightarrow> ident \<Rightarrow> ident \<Rightarrow> (http_error + rental) \<times> db" where
  "cancelRental s now rid userId =
     (case findOne s rid (Some userId) of
        Inl e \<Rightarrow> (Inl e, s)
      | Inr rental \<Rightarrow>
          if r_renterId rental \<noteq> userId \<and> r_ownerId rental \<noteq> userId
          then (Inl (ForbiddenException ''You do not have permission to cancel this rental''), s)
          else if r_status rental = RS_COMPLETED
          then (Inl (BadRequestException ''Cannot cancel a completed rental''), s)
          else
            (case rentalUpdate s rid (\<lambda>r. r\<lparr>r_status := RS_CANCELLED, r_deletedAt := Some now\<rparr>) of
               (Inl e, s1) \<Rightarrow> (Inl e, s1)
             | (Inr updatedRental, s1) \<Rightarrow>
                 (case equipmentUpdate s1 (r_equipmentId rental) (\<lambda>e. e\<lparr>e_isAvailable := True\<rparr>) of
                    (Inl e, s2) \<Rightarrow> (Inl e, s2)
                  | (Inr _, s2) \<Rightarrow> (Inr updatedRental, s2))))"

text \<open>
  \<open>RentalService.payWithWallet\<close>. The rental is read with its equipment; the description of
  the payment dereferences the equipment's name.
\<close>

definition payWithWallet ::
  "db \<Rightarrow> ident \<Rightarrow> ident \<Rightarrow> ident \<Rightarrow> ident \<Rightarrow> (http_error + rental) \<times> db" where
  "payWithWallet s newWalletId newTxId rentalId userId =
     (case find (\<lambda>r. r_id r = rentalId) (rentals s) of
        None \<Rightarrow> (Inl (NotFoundException ''Rental not found''), s)
      | Some rental \<Rightarrow>
          if r_renterId rental \<noteq> userId
          then (Inl (ForbiddenException ''You can only pay for your own rentals''), s)
          else if r_paymentStatus rental = PS_PAID
          then (Inl (BadRequestException ''Rental already paid''), s)
          else
            (case getWalletByUserId s newWalletId newTxId userId of
               (Inl e, s1) \<Rightarrow> (Inl e, s1)
             | (Inr wallet, s1) \<Rightarrow>
                 if w_balance wallet < r_totalAmount rental
                 then (Inl (BadRequestException ''Insufficient wallet balance''), s1)
                 else
                   (case find (\<lambda>e. e_id e = r_equipmentId rental) (equipments s1) of
                      None \<Rightarrow> (Inl TypeError, s1)
                    | Some equipment \<Rightarrow>
                        (case createTransaction s1 newTxId
                                \<lparr> ct_walletId = w_id wallet,
                                  ct_type = PAYMENT,
                                  ct_amount = - r_totalAmount rental,
                                  ct_description = ''Pagamento de aluguel - '' @ e_name equipment,
                                  ct_reference = None,
                                  ct_proxyPayReference = None,
                                  ct_proxyPayId = None,
                                  ct_status = Some WTS_COMPLETED,
                                  ct_metadata =
                                    [(''rentalId'', r_id rental),
                                     (''equipmentId'', r_equipmentId rental),
                                     (''ownerId'', r_ownerId rental)] \<rparr> of
                           (Inl e, s2) \<Rightarrow> (Inl e, s2)
                         | (Inr _, s2) \<Rightarrow>
                             rentalUpdate s2 rentalId
                               (\<lambda>r. r\<lparr>r_paymentStatus := PS_PAID,
                                      r_paymentMethod := WALLET,
                                      r_status := RS_PAID\<rparr>)))))"

text \<open>
  \<open>RentalService.cancelExpiredApprovedRentals\<close>. \<open>timeoutHours\<close> is the parsed environment
  variable (24 when it is unset). The rows are selected once; the loop then cancels them
  one by one, each inside a \<open>try\<close> whose \<open>catch\<close> logs and goes on.
\<close>

definition isExpired :: "instant \<Rightarrow> rental \<Rightarrow> bool" where
  "isExpired expirationDate r =
     (r_status r = RS_APPROVED \<and> r_paymentStatus r = PS_PENDING
      \<and> (case r_approvedAt r of None \<Rightarrow> False | Some t \<Rightarrow> t \<le> expirationDate))"

fun cancelLoop :: "db \<Rightarrow> instant \<Rightarrow> rental list \<Rightarrow> rental list \<Rightarrow> rental list \<times> db" where
  "cancelLoop s now [] cancelledRentals = (cancelledRentals, s)"
| "cancelLoop s now (rental # rest) cancelledRentals =
     (case rentalUpdate s (r_id rental) (\<lambda>r. r\<lparr>r_status := RS_CANCELLED\<rparr>) of
        (Inl e, s1) \<Rightarrow> cancelLoop s1 now rest cancelledRentals
      | (Inr _, s1) \<Rightarrow>
          (case find (\<lambda>r. isHeld (r_equipmentId rental) now r \<and> r_id r \<noteq> r_id rental) (rentals s1) of
             None \<Rightarrow>
               (case equipmentUpdate s1 (r_equipmentId rental) (\<lambda>e. e\<lparr>e_isAvailable := True\<rparr>) of
                  (Inl e, s2) \<Rightarrow> cancelLoop s2 now rest cancelledRentals
                | (Inr _, s2) \<Rightarrow> cancelLoop s2 now rest (cancelledRentals @ [rental]))
           | Some hasOtherApprovedRentals \<Rightarrow> cancelLoop s1 now rest (cancelledRentals @ [rental])))"

definition cancelExpiredApprovedRentals :: "db \<Rightarrow> instant \<Rightarrow> int \<Rightarrow> rental list \<times> db" where
  "cancelExpiredApprovedRentals s now timeoutHours =
     (let expirationDate = now - timeoutHours * msPerHour;
          expiredRentals = filter (isExpired expirationDate) (rentals s)
      in cancelLoop s now expiredRentals [])"

section \<open>Sponsorship service\<close>

text \<open>
  \<open>SponsorshipService.createSponsorship\<close>. The end of the window is \<open>setDate(getDate() +
  duration)\<close>, that is \<open>duration\<close> days after \<open>now\<close>. Of the metadata, the entries that
  are always present are kept.
\<close>

definition activeInWindow :: "ident \<Rightarrow> instant \<Rightarrow> adSponsorship \<Rightarrow> bool" where
  "activeInWindow sponsorId now a =
     (a_sponsorId a = sponsorId \<and> a_status a = SP_ACTIVE
      \<and> a_startDate a \<le> now \<and> a_endDate a \<ge> now)"

definition createSponsorship ::
  "db \<Rightarrow> instant \<Rightarrow> ident \<Rightarrow> ident \<Rightarrow> ident \<Rightarrow> ident \<Rightarrow> CreateSponsorshipDto
     \<Rightarrow> (http_error + adSponsorship) \<times> db" where
  "createSponsorship s now newSponsorshipId newWalletId newTxId sponsorId dto =
     (let targetUserId = cs_targetUserId dto;
          equipmentId = cs_equipmentId dto;
          amount = cs_amount dto;
          duration = cs_duration dto
      in if amount \<le> 0
         then (Inl (BadRequestException ''Amount must be positive''), s)
         else if duration \<le> 0
         then (Inl (BadRequestException ''Duration must be positive''), s)
         else
           (case find (activeInWindow sponsorId now) (adSponsorships s) of
              Some existingSponsorship \<Rightarrow>
                (Inl (BadRequestException
                  ''Voce ja possui um patrocinio ativo. Aguarde a expiracao ou cancele o atual para criar um novo.''), s)
            | None \<Rightarrow>
                (case getWalletByUserId s newWalletId newTxId sponsorId of
                   (Inl e, s1) \<Rightarrow> (Inl e, s1)
                 | (Inr wallet, s1) \<Rightarrow>
                     if w_balance wallet < amount
                     then (Inl (BadRequestException ''Insufficient wallet balance''), s1)
                     else if truthy equipmentId
                           \<and> find (\<lambda>e. Some (e_id e) = equipmentId \<and> e_ownerId e = sponsorId
                                        \<and> e_deletedAt e = None) (equipments s1) = None
                     then (Inl (NotFoundException ''Equipment not found or not owned by user''), s1)
                     else if truthy targetUserId
                           \<and> find (\<lambda>u. Some (u_id u) = targetUserId) (users s1) = None
                     then (Inl (NotFoundException ''Target user not found''), s1)
                     else
                       let startDate = now;
                           endDate = now + duration * msPerDay;
                           sponsorship =
                             \<lparr> a_id = newSponsorshipId,
                               a_sponsorId = sponsorId,
                               a_targetUserId = targetUserId,
                               a_equipmentId = equipmentId,
                               a_amount = amount,
                               a_duration = duration,
                               a_startDate = startDate,
                               a_endDate = endDate,
                               a_status = SP_ACTIVE \<rparr>;
                           s2 = s1\<lparr>adSponsorships := adSponsorships s1 @ [sponsorship]\<rparr>
                       in case createTransaction s2 newTxId
                                 \<lparr> ct_walletId = w_id wallet,
                                   ct_type = PROMOTION_FEE,
                                   ct_amount = - amount,
                                   ct_description =
                                     ''Patrocinio de anuncio - '' @ decimal duration @ '' dias'',
                                   ct_reference = None,
                                   ct_proxyPayReference = None,
                                   ct_proxyPayId = None,
                                   ct_status = Some WTS_COMPLETED,
                                   ct_metadata =
                                     [(''sponsorshipId'', a_id sponsorship),
                                      (''duration'', decimal duration)] \<rparr> of
                            (Inl e, s3) \<Rightarrow> (Inl e, s3)
                          | (Inr _, s3) \<Rightarrow> (Inr sponsorship, s3))))"

section \<open>The declared rental state machine\<close>

text \<open>
  The transitions as the specification words them:
  \<open>PENDING \<rightarrow> APPROVED \<rightarrow> PAID/ACTIVE \<rightarrow> COMPLETED\<close>, with \<open>CANCELLED\<close> and \<open>REJECTED\<close>
  reachable from \<open>PENDING\<close> and \<open>APPROVED\<close>. This relation is the specification's; no
  function of the services mentions it.
\<close>

fun specTransition :: "RentalStatus \<Rightarrow> RentalStatus \<Rightarrow> bool" where
  "specTransition RS_PENDING RS_APPROVED = True"
| "specTransition RS_APPROVED RS_PAID = True"
| "specTransition RS_APPROVED RS_ACTIVE = True"
| "specTransition RS_PAID RS_ACTIVE = True"
| "specTransition RS_PAID RS_COMPLETED = True"
| "specTransition RS_ACTIVE RS_COMPLETED = True"
| "specTransition RS_PENDING RS_CANCELLED = True"
| "specTransition RS_PENDING RS_REJECTED = True"
| "specTransition RS_APPROVED RS_CANCELLED = True"
| "specTransition RS_APPROVED RS_REJECTED = True"
| "specTransition _ _ = False"

text \<open>
  The period count as the specification words it: HOURLY is \<open>days \<times> 8\<close>, WEEKLY is
  \<open>ceil(days/7)\<close>, MONTHLY is \<open>ceil(days/30)\<close>, DAILY (the default) is \<open>days\<close>.
\<close>

definition specPeriodCount :: "PricePeriod option \<Rightarrow> int \<Rightarrow> int" where
  "specPeriodCount period days =
     (case (case period of None \<Rightarrow> DAILY | Some p \<Rightarrow> p) of
        HOURLY \<Rightarrow> days * 8
      | WEEKLY \<Rightarrow> \<lceil>(of_int days :: rat) / 7\<rceil>
      | MONTHLY \<Rightarrow> \<lceil>(of_int days :: rat) / 30\<rceil>
      | DAILY \<Rightarrow> days)"

section \<open>Sample stores\<close>

text \<open>
  A small marketplace used to run the operations on concrete data: one landlord who owns a
  drill, two tenants who each asked to rent it for 2 to 6 March 2024, and their wallets.
\<close>

definition date_2024_03_01 :: instant where
  "date_2024_03_01 = 1709251200000"

definition demoOwner :: user where
  "demoOwner = \<lparr> u_id = ''owner1'', u_fullName = ''Olga'', u_userType = ''LANDLORD'' \<rparr>"

definition demoRenter1 :: user where
  "demoRenter1 = \<lparr> u_id = ''renter1'', u_fullName = ''Rui'', u_userType = ''TENANT'' \<rparr>"

definition demoRenter2 :: user where
  "demoRenter2 = \<lparr> u_id = ''renter2'', u_fullName = ''Ana'', u_userType = ''TENANT'' \<rparr>"

definition demoEquipment :: equipment where
  "demoEquipment =
     \<lparr> e_id = ''e1'', e_ownerId = ''owner1'', e_name = ''Drill'', e_isAvailable = True,
       e_price = Some 50, e_pricePeriod = Some DAILY, e_deletedAt = None \<rparr>"

definition demoRental1 :: rental where
  "demoRental1 =
     \<lparr> r_id = ''r1'', r_equipmentId = ''e1'', r_renterId = ''renter1'', r_ownerId = ''owner1'',
       r_startDate = date_2024_03_01 + msPerDay, r_endDate = date_2024_03_01 + 5 * msPerDay,
       r_totalAmount = 200, r_dailyRate = 50, r_maxRentalDays = None,
       r_pricePeriod = Some DAILY, r_paymentMethod = WALLET, r_paymentReference = None,
       r_returnReminderDate = date_2024_03_01 + 4 * msPerDay,
       r_returnNotificationSent = False, r_status = RS_PENDING,
       r_paymentStatus = PS_PENDING, r_paymentReceiptStatus = None, r_hasPriority = False,
       r_priorityAmount = None, r_priorityPaidAt = None, r_approvedAt = None,
       r_deletedAt = None \<rparr>"

definition demoRental2 :: rental where
  "demoRental2 = demoRental1\<lparr>r_id := ''r2'', r_renterId := ''renter2''\<rparr>"

definition demoWallet1 :: wallet where
  "demoWallet1 = \<lparr> w_id = ''w1'', w_userId = ''renter1'', w_balance = 300, w_isActive = True \<rparr>"

definition demoWallet2 :: wallet where
  "demoWallet2 = \<lparr> w_id = ''w2'', w_userId = ''renter2'', w_balance = 10, w_isActive = True \<rparr>"

definition demoDeposit :: "ident \<Rightarrow> ident \<Rightarrow> money \<Rightarrow> walletTransaction" where
  "demoDeposit tid wid amount =
     \<lparr> t_id = tid, t_walletId = wid, t_type = DEPOSIT, t_amount = amount,
       t_description = ''Deposito'', t_status = WTS_COMPLETED, t_reference = None,
       t_proxyPayReference = None, t_proxyPayId = None, t_metadata = [] \<rparr>"

definition demoDb :: db where
  "demoDb =
     \<lparr> users = [demoOwner, demoRenter1, demoRenter2],
       equipments = [demoEquipment],
       rentals = [demoRental1, demoRental2],
       wallets = [demoWallet1, demoWallet2],
       walletTransactions = [demoDeposit ''t1'' ''w1'' 300, demoDeposit ''t2'' ''w2'' 10],
       adSponsorships = [] \<rparr>"

text \<open>A store with one registered user and nothing else.\<close>

definition dbOneUser :: db where
  "dbOneUser =
     \<lparr> users = [demoRenter1], equipments = [], rentals = [], wallets = [],
       walletTransactions = [], adSponsorships = [] \<rparr>"

text \<open>The same marketplace with a running sponsorship of the landlord.\<close>

definition demoSponsorship :: adSponsorship where
  "demoSponsorship =
     \<lparr> a_id = ''a1'', a_sponsorId = ''owner1'', a_targetUserId = None,
       a_equipmentId = Some ''e1'', a_amount = 100, a_duration = 7,
       a_startDate = date_2024_03_01, a_endDate = date_2024_03_01 + 7 * msPerDay,
       a_status = SP_ACTIVE \<rparr>"

definition sponsoredDb :: db where
  "sponsoredDb = demoDb\<lparr>adSponsorships := [demoSponsorship]\<rparr>"

text \<open>
  The marketplace at the time of a sweep, 3 March 2024: the first rental was approved
  25 hours before, the second 23 hours before, and neither is paid.
\<close>

definition sweepNow :: instant where
  "sweepNow = date_2024_03_01 + 2 * msPerDay"

definition sweepDb :: db where
  "sweepDb =
     demoDb\<lparr>rentals :=
       [demoRental1\<lparr>r_status := RS_APPROVED, r_approvedAt := Some (sweepNow - 25 * msPerHour)\<rparr>,
        demoRental2\<lparr>r_status := RS_APPROVED, r_approvedAt := Some (sweepNow - 23 * msPerHour)\<rparr>]\<rparr>"

text \<open>
  A request of the first tenant for 1 to 5 March 2024 at a daily rate of 50, without a
  total amount, and the row that \<open>create\<close> returns for it with a given total.
\<close>

definition demoCreateDto :: "PricePeriod \<Rightarrow> CreateRentalDto" where
  "demoCreateDto period =
     \<lparr> cr_renterId = ''renter1'', cr_equipmentId = ''e1'',
       cr_startDate = date_2024_03_01, cr_endDate = date_2024_03_01 + 4 * msPerDay,
       cr_totalAmount = None, cr_dailyRate = Some 50, cr_pricePeriod = Some period,
       cr_maxRentalDays = None, cr_paymentMethod = WALLET, cr_paymentReference = None,
       cr_hasPriority = None, cr_priorityAmount = None \<rparr>"

definition demoCreated :: "PricePeriod \<Rightarrow> money \<Rightarrow> rental" where
  "demoCreated period amount =
     \<lparr> r_id = ''r3'', r_equipmentId = ''e1'', r_renterId = ''renter1'', r_ownerId = ''owner1'',
       r_startDate = date_2024_03_01, r_endDate = date_2024_03_01 + 4 * msPerDay,
       r_totalAmount = amount, r_dailyRate = 50, r_maxRentalDays = None,
       r_pricePeriod = Some period, r_paymentMethod = WALLET, r_paymentReference = None,
       r_returnReminderDate = date_2024_03_01 + 3 * msPerDay,
       r_returnNotificationSent = False, r_status = RS_PENDING,
       r_paymentStatus = PS_PENDING, r_paymentReceiptStatus = None, r_hasPriority = False,
       r_priorityAmount = None, r_priorityPaidAt = None, r_approvedAt = None,
       r_deletedAt = None \<rparr>"

text \<open>
  The marketplace after the landlord approved the first rental at \<open>sweepNow\<close>: the drill
  is unavailable, the second request is rejected.
\<close>

definition approvedDb :: db where
  "approvedDb =
     demoDb\<lparr>equipments := [demoEquipment\<lparr>e_isAvailable := False\<rparr>],
            rentals :=
              [demoRental1\<lparr>r_status := RS_APPROVED, r_approvedAt := Some sweepNow\<rparr>,
               demoRental2\<lparr>r_status := RS_REJECTED\<rparr>]\<rparr>"

text \<open>
  The marketplace with an equipment row that names another owner than the rentals
  recorded for it.
\<close>

definition strayDb :: db where
  "strayDb = demoDb\<lparr>equipments := [demoEquipment\<lparr>e_ownerId := ''owner2''\<rparr>]\<rparr>"

lemmas demo_defs =
  demoDb_def demoOwner_def demoRenter1_def demoRenter2_def demoEquipment_def demoRental1_def
  demoRental2_def demoWallet1_def demoWallet2_def demoDeposit_def dbOneUser_def
  date_2024_03_01_def msPerDay_def msPerHour_def demoSponsorship_def sponsoredDb_def
  sweepNow_def sweepDb_def demoCreateDto_def demoCreated_def approvedDb_def
  strayDb_def



section \<open>Lemmas about the store primitives\<close>

lemma find_updateWhere_key:
  assumes "\<And>x. key (f x) = key x"
  shows "find (\<lambda>x. key x = k) (updateWhere (\<lambda>x. key x = k) f xs) =
         map_option f (find (\<lambda>x. key x = k) xs)"
  by (induction xs) (simp_all add: updateWhere_def assms)

lemma find_key_updateWhere_other:
  assumes "\<And>x. key (g x) = key x" and "\<And>x. P x \<Longrightarrow> key x \<noteq> k"
  shows "find (\<lambda>x. key x = k) (updateWhere P g xs) = find (\<lambda>x. key x = k) xs"
  by (induction xs) (auto simp: updateWhere_def assms)

lemma find_weaken:
  "find (\<lambda>x. P x \<and> Q x) xs = Some x \<Longrightarrow> \<exists>y. find P xs = Some y"
  by (cases "find P xs") (auto simp: find_None_iff find_Some_iff)

lemma find_append_absent:
  "find P xs = None \<Longrightarrow> find P (xs @ ys) = find P ys"
  by (induction xs) (auto split: if_splits)

lemma find_distinct_key:
  "distinct (map key xs) \<Longrightarrow> x \<in> set xs \<Longrightarrow> find (\<lambda>y. key y = key x) xs = Some x"
  by (induction xs) (auto simp: rev_image_eqI)

lemma find_Some_mem: "find P xs = Some x \<Longrightarrow> x \<in> set xs \<and> P x"
  by (auto simp: find_Some_iff)

lemma balanceOf_increment:
  "find (\<lambda>w. w_id w = wid) ws = Some wallet \<Longrightarrow>
   find (\<lambda>w. w_id w = wid) (incrementBalance wid a ws) =
     Some (wallet\<lparr>w_balance := w_balance wallet + a\<rparr>)"
  unfolding incrementBalance_def
  by (subst find_updateWhere_key) simp_all

section \<open>The wallet ledger\<close>

text \<open>
  Reading the wallet of a user who exists always succeeds; it either returns the row that
  is there or inserts one with balance 0, and touches no other table.
\<close>

lemma getWalletByUserId_ok:
  assumes "find (\<lambda>u. u_id u = userId) (users s) = Some u"
  shows "\<exists>wallet s1. getWalletByUserId s nw nt userId = (Inr wallet, s1)"
  using assms
  by (cases "find (\<lambda>w. w_userId w = userId) (wallets s)")
     (auto simp: getWalletByUserId_def createWallet_def Let_def)

lemma getWalletByUserId_Inr:
  assumes "getWalletByUserId s nw nt userId = (Inr wallet, s1)"
  shows "users s1 = users s \<and> equipments s1 = equipments s \<and> rentals s1 = rentals s
         \<and> walletTransactions s1 = walletTransactions s
         \<and> adSponsorships s1 = adSponsorships s
         \<and> wallet \<in> set (wallets s1) \<and> w_userId wallet = userId
         \<and> (wallets s1 = wallets s \<or> wallets s1 = wallets s @ [wallet] \<and> w_id wallet = nw)"
  using assms
  by (auto simp: getWalletByUserId_def createWallet_def Let_def
           split: option.splits dest: find_Some_mem)

lemma getWalletByUserId_row:
  assumes "getWalletByUserId s nw nt userId = (Inr wallet, s1)"
    and "distinct (map w_id (wallets s))"
    and "nw \<notin> w_id ` set (wallets s)"
  shows "find (\<lambda>w. w_id w = w_id wallet) (wallets s1) = Some wallet"
proof -
  from getWalletByUserId_Inr [OF assms(1)]
  have mem: "wallet \<in> set (wallets s1)"
    and shape: "wallets s1 = wallets s \<or> wallets s1 = wallets s @ [wallet] \<and> w_id wallet = nw"
    by simp_all
  from shape assms(2,3) have "distinct (map w_id (wallets s1))"
    by auto
  with mem show ?thesis
    by (rule find_distinct_key [rotated])
qed

text \<open>
  A successful \<open>createTransaction\<close> adds the amount to the balance of its wallet and to the
  sum of that wallet's COMPLETED transactions, and leaves both unchanged for every other
  wallet: the difference between balance and ledger is kept by this method.
\<close>

lemma createTransaction_keeps_ledger:
  assumes "createTransaction s newId dto = (Inr tx, s')"
  shows "completedSum s' wid = completedSum s wid + (if wid = ct_walletId dto then ct_amount dto else 0)
       \<and> balanceOf s' wid =
           map_option (\<lambda>b. b + (if wid = ct_walletId dto then ct_amount dto else 0)) (balanceOf s wid)"
proof (cases "wid = ct_walletId dto")
  case True
  with assms show ?thesis
    by (auto simp: createTransaction_def Let_def completedSum_def balanceOf_def balanceOf_increment
             split: option.splits if_splits)
next
  case False
  have "find (\<lambda>w. w_id w = wid) (incrementBalance (ct_walletId dto) (ct_amount dto) (wallets s)) =
        find (\<lambda>w. w_id w = wid) (wallets s)"
    unfolding incrementBalance_def
    by (rule find_key_updateWhere_other) (use False in simp_all)
  with assms False show ?thesis
    by (auto simp: createTransaction_def Let_def completedSum_def balanceOf_def option.map_ident
             split: option.splits if_splits)
qed

text \<open>
  C1 (the balance of a wallet equals the sum of its COMPLETED transactions after
  \<open>createWallet\<close> and any successful transactions). \<open>createWallet\<close> writes the initial
  balance into the new row and then calls \<open>createTransaction\<close>, which increments the
  balance by the same amount again: for a user without a wallet and an initial balance
  of 100, the call succeeds, the stored balance is 200 and the one recorded transaction
  sums to 100.
\<close>

theorem createWallet_counts_initial_balance_twice:
  "fst (createWallet dbOneUser ''w1'' ''t1''
          \<lparr> cw_userId = ''renter1'', cw_initialBalance = Some 100 \<rparr>)
     = Inr \<lparr> w_id = ''w1'', w_userId = ''renter1'', w_balance = 100, w_isActive = True \<rparr>
   \<and> balanceOf (snd (createWallet dbOneUser ''w1'' ''t1''
        \<lparr> cw_userId = ''renter1'', cw_initialBalance = Some 100 \<rparr>)) ''w1'' = Some 200
   \<and> completedSum (snd (createWallet dbOneUser ''w1'' ''t1''
        \<lparr> cw_userId = ''renter1'', cw_initialBalance = Some 100 \<rparr>)) ''w1'' = 100"
  by (simp add: createWallet_def createTransaction_def demo_defs balanceOf_def completedSum_def
                incrementBalance_def updateWhere_def Let_def)

text \<open>
  C2 (a debit that exceeds the balance fails and changes nothing). For a wallet that
  exists, a request with a negative amount and \<open>balance + amount < 0\<close> raises
  \<open>BadRequestException('Insufficient balance')\<close>, and the store after the call is the
  store before it: balances and transaction rows included.
\<close>

theorem createTransaction_insufficient_balance:
  assumes "find (\<lambda>w. w_id w = ct_walletId dto) (wallets s) = Some wallet"
    and "ct_amount dto < 0"
    and "w_balance wallet + ct_amount dto < 0"
  shows "createTransaction s newId dto = (Inl (BadRequestException ''Insufficient balance''), s)"
  using assms by (simp add: createTransaction_def)

theorem createTransaction_insufficient_balance_witness:
  "find (\<lambda>w. w_id w = ''w2'') (wallets demoDb) = Some demoWallet2
   \<and> (- 60 :: money) < 0
   \<and> w_balance demoWallet2 + (- 60) < 0
   \<and> createTransaction demoDb ''t3''
        \<lparr> ct_walletId = ''w2'', ct_type = PAYMENT, ct_amount = - 60,
          ct_description = ''Pagamento'', ct_reference = None, ct_proxyPayReference = None,
          ct_proxyPayId = None, ct_status = None, ct_metadata = [] \<rparr>
      = (Inl (BadRequestException ''Insufficient balance''), demoDb)"
proof -
  let ?dto = "\<lparr> ct_walletId = ''w2'', ct_type = PAYMENT, ct_amount = - 60,
          ct_description = ''Pagamento'', ct_reference = None, ct_proxyPayReference = None,
          ct_proxyPayId = None, ct_status = None, ct_metadata = [] \<rparr>"
  have h1: "find (\<lambda>w. w_id w = ct_walletId ?dto) (wallets demoDb) = Some demoWallet2"
    by (simp add: demo_defs)
  have h2: "ct_amount ?dto < 0"
    by simp
  have h3: "w_balance demoWallet2 + ct_amount ?dto < 0"
    by (simp add: demo_defs)
  from createTransaction_insufficient_balance [OF h1 h2 h3, of "''t3''"] h1 h2 h3
  show ?thesis
    by simp
qed

text \<open>
  The facts behind C10: a request that passes the balance check is stored as COMPLETED
  whatever status it carries, and a gateway deposit goes through that same path, for a
  user who has a wallet and for one whose wallet is created on the way.
\<close>

lemma createTransaction_stores_completed:
  assumes "find (\<lambda>w. w_id w = ct_walletId dto) (wallets s) = Some wallet"
    and "\<not> (ct_amount dto < 0 \<and> w_balance wallet + ct_amount dto < 0)"
  shows "\<exists>tx s'. createTransaction s newId (dto\<lparr>ct_status := requested\<rparr>) = (Inr tx, s')
           \<and> t_status tx = WTS_COMPLETED
           \<and> t_amount tx = ct_amount dto
           \<and> walletTransactions s' = walletTransactions s @ [tx]
           \<and> balanceOf s' (ct_walletId dto) = Some (w_balance wallet + ct_amount dto)"
  using assms
  by (auto simp: createTransaction_def Let_def balanceOf_def balanceOf_increment)

lemma depositViaProxyPay_existing_wallet:
  assumes "0 < pd_amount depositDto"
    and "find (\<lambda>u. u_id u = userId) (users s) = Some u"
    and "pp_success resp"
    and "distinct (map w_id (wallets s))"
    and "find (\<lambda>w. w_userId w = userId) (wallets s) = Some payer"
  shows "\<exists>tx s'.
            depositViaProxyPay s nw nt userId depositDto resp = (Inr (tx, w_balance payer), s')
          \<and> t_status tx = WTS_COMPLETED
          \<and> t_amount tx = pd_amount depositDto
          \<and> t_walletId tx = w_id payer
          \<and> walletTransactions s' = walletTransactions s @ [tx]
          \<and> balanceOf s (w_id payer) = Some (w_balance payer)
          \<and> balanceOf s' (w_id payer) = Some (w_balance payer + pd_amount depositDto)"
proof -
  have g: "getWalletByUserId s nw nt userId = (Inr payer, s)"
    by (simp add: getWalletByUserId_def assms(5))
  have "payer \<in> set (wallets s)"
    using find_Some_mem [OF assms(5)] by simp
  with assms(4) have row: "find (\<lambda>w. w_id w = w_id payer) (wallets s) = Some payer"
    by (rule find_distinct_key)
  show ?thesis
    using assms(1,2,3) g row
    by (simp add: depositViaProxyPay_def createTransaction_def Let_def balanceOf_def
                  balanceOf_increment)
qed

lemma depositViaProxyPay_new_wallet:
  assumes "0 < pd_amount depositDto"
    and "find (\<lambda>u. u_id u = userId) (users s) = Some u"
    and "pp_success resp"
    and "find (\<lambda>w. w_userId w = userId) (wallets s) = None"
    and "nw \<notin> w_id ` set (wallets s)"
  shows "\<exists>tx s'.
            depositViaProxyPay s nw nt userId depositDto resp = (Inr (tx, 0), s')
          \<and> t_status tx = WTS_COMPLETED
          \<and> t_amount tx = pd_amount depositDto
          \<and> t_walletId tx = nw
          \<and> walletTransactions s' = walletTransactions s @ [tx]
          \<and> balanceOf s nw = None
          \<and> balanceOf s' nw = Some (pd_amount depositDto)"
proof -
  let ?new = "\<lparr> w_id = nw, w_userId = userId, w_balance = 0, w_isActive = True \<rparr>"
  have g: "getWalletByUserId s nw nt userId = (Inr ?new, s\<lparr>wallets := wallets s @ [?new]\<rparr>)"
    by (simp add: getWalletByUserId_def createWallet_def Let_def assms(2,4))
  have absent: "find (\<lambda>w. w_id w = nw) (wallets s) = None"
    using assms(5) by (auto simp: find_None_iff)
  then have row: "find (\<lambda>w. w_id w = nw) (wallets s @ [?new]) = Some ?new"
    by (simp add: find_append_absent)
  show ?thesis
    using assms(1,2,3) g row absent
    by (simp add: depositViaProxyPay_def createTransaction_def Let_def balanceOf_def
                  balanceOf_increment)
qed

text \<open>
  C10 (\<open>createTransaction\<close> stores every accepted request as COMPLETED and increments the
  balance at once, whatever status the caller supplied; a deposit started by
  \<open>depositViaProxyPay\<close>, which passes PENDING, is stored as COMPLETED and is already in
  the balance). First conjunct: any request on an existing wallet that passes the balance
  check, with any \<open>requested\<close> status. The other two conjuncts are a positive deposit of a
  registered user for which the gateway answered with success. Second conjunct: the user
  has the wallet \<open>payer\<close> in the store before the call (wallet ids distinct); the
  transaction is recorded against that wallet as COMPLETED, the call returns the balance
  read before the write, and the stored balance of that wallet goes from
  \<open>w_balance payer\<close> before the call to \<open>w_balance payer + amount\<close> after it. Third
  conjunct: the user has no wallet yet and \<open>nw\<close> is a fresh id; the wallet \<open>nw\<close> does not
  exist before the call and holds exactly the amount after it.
\<close>

theorem createTransaction_ignores_requested_status:
  "(find (\<lambda>w. w_id w = ct_walletId dto) (wallets s) = Some wallet
      \<and> \<not> (ct_amount dto < 0 \<and> w_balance wallet + ct_amount dto < 0)
    \<longrightarrow> (\<exists>tx s'. createTransaction s newId (dto\<lparr>ct_status := requested\<rparr>) = (Inr tx, s')
           \<and> t_status tx = WTS_COMPLETED
           \<and> t_amount tx = ct_amount dto
           \<and> walletTransactions s' = walletTransactions s @ [tx]
           \<and> balanceOf s' (ct_walletId dto) = Some (w_balance wallet + ct_amount dto)))
   \<and> (0 < pd_amount depositDto
      \<and> find (\<lambda>u. u_id u = userId) (users s) = Some u
      \<and> pp_success resp
      \<and> distinct (map w_id (wallets s))
      \<and> find (\<lambda>w. w_userId w = userId) (wallets s) = Some payer
    \<longrightarrow> (\<exists>tx s'.
            depositViaProxyPay s nw nt userId depositDto resp = (Inr (tx, w_balance payer), s')
          \<and> t_status tx = WTS_COMPLETED
          \<and> t_amount tx = pd_amount depositDto
          \<and> t_walletId tx = w_id payer
          \<and> walletTransactions s' = walletTransactions s @ [tx]
          \<and> balanceOf s (w_id payer) = Some (w_balance payer)
          \<and> balanceOf s' (w_id payer) = Some (w_balance payer + pd_amount depositDto)))
   \<and> (0 < pd_amount depositDto
      \<and> find (\<lambda>u. u_id u = userId) (users s) = Some u
      \<and> pp_success resp
      \<and> find (\<lambda>w. w_userId w = userId) (wallets s) = None
      \<and> nw \<notin> w_id ` set (wallets s)
    \<longrightarrow> (\<exists>tx s'.
            depositViaProxyPay s nw nt userId depositDto resp = (Inr (tx, 0), s')
          \<and> t_status tx = WTS_COMPLETED
          \<and> t_amount tx = pd_amount depositDto
          \<and> t_walletId tx = nw
          \<and> walletTransactions s' = walletTransactions s @ [tx]
          \<and> balanceOf s nw = None
          \<and> balanceOf s' nw = Some (pd_amount depositDto)))"
  using createTransaction_stores_completed [of dto s wallet newId requested]
        depositViaProxyPay_existing_wallet [of depositDto userId s u resp payer nw nt]
        depositViaProxyPay_new_wallet [of depositDto userId s u resp nw nt]
  by blast

text \<open>
  On the sample store: a request for 40 with status PENDING on the wallet \<open>w2\<close> (balance
  10) is stored as COMPLETED and the balance is 50; a gateway deposit of 40 by the second
  tenant takes \<open>w2\<close> from 10 to 50; a gateway deposit of 40 by the landlord, who has no
  wallet, creates \<open>w9\<close> with 40.
\<close>

theorem createTransaction_ignores_requested_status_witness:
  "(find (\<lambda>w. w_id w = ''w2'') (wallets demoDb) = Some demoWallet2
      \<and> \<not> ((40 :: money) < 0 \<and> w_balance demoWallet2 + 40 < 0))
   \<and> (\<exists>tx s'. createTransaction demoDb ''t3''
                  \<lparr> ct_walletId = ''w2'', ct_type = DEPOSIT, ct_amount = 40,
                    ct_description = ''Deposito'', ct_reference = None,
                    ct_proxyPayReference = None, ct_proxyPayId = None,
                    ct_status = Some WTS_PENDING, ct_metadata = [] \<rparr> = (Inr tx, s')
           \<and> t_status tx = WTS_COMPLETED
           \<and> t_amount tx = 40
           \<and> walletTransactions s' = walletTransactions demoDb @ [tx]
           \<and> balanceOf s' ''w2'' = Some 50)
   \<and> ((0 :: money) < 40
      \<and> find (\<lambda>u. u_id u = ''renter2'') (users demoDb) = Some demoRenter2
      \<and> distinct (map w_id (wallets demoDb))
      \<and> find (\<lambda>w. w_userId w = ''renter2'') (wallets demoDb) = Some demoWallet2)
   \<and> (\<exists>tx s'.
            depositViaProxyPay demoDb ''w9'' ''t3'' ''renter2''
              \<lparr> pd_amount = 40, pd_paymentMethod = ''bank_transfer'', pd_phoneNumber = None \<rparr>
              \<lparr> pp_success = True, pp_transactionId = ''900'', pp_reference = ''900'',
                pp_paymentUrl = None, pp_error = None \<rparr> = (Inr (tx, 10), s')
          \<and> t_status tx = WTS_COMPLETED
          \<and> t_amount tx = 40
          \<and> t_walletId tx = ''w2''
          \<and> walletTransactions s' = walletTransactions demoDb @ [tx]
          \<and> balanceOf demoDb ''w2'' = Some 10
          \<and> balanceOf s' ''w2'' = Some 50)
   \<and> (find (\<lambda>u. u_id u = ''owner1'') (users demoDb) = Some demoOwner
      \<and> find (\<lambda>w. w_userId w = ''owner1'') (wallets demoDb) = None
      \<and> ''w9'' \<notin> w_id ` set (wallets demoDb))
   \<and> (\<exists>tx s'.
            depositViaProxyPay demoDb ''w9'' ''t3'' ''owner1''
              \<lparr> pd_amount = 40, pd_paymentMethod = ''bank_transfer'', pd_phoneNumber = None \<rparr>
              \<lparr> pp_success = True, pp_transactionId = ''900'', pp_reference = ''900'',
                pp_paymentUrl = None, pp_error = None \<rparr> = (Inr (tx, 0), s')
          \<and> t_status tx = WTS_COMPLETED
          \<and> t_amount tx = 40
          \<and> t_walletId tx = ''w9''
          \<and> walletTransactions s' = walletTransactions demoDb @ [tx]
          \<and> balanceOf demoDb ''w9'' = None
          \<and> balanceOf s' ''w9'' = Some 40)"
proof -
  let ?dto = "\<lparr> ct_walletId = ''w2'', ct_type = DEPOSIT, ct_amount = 40,
                 ct_description = ''Deposito'', ct_reference = None,
                 ct_proxyPayReference = None, ct_proxyPayId = None,
                 ct_status = None, ct_metadata = [] \<rparr>"
  let ?dep = "\<lparr> pd_amount = 40, pd_paymentMethod = ''bank_transfer'', pd_phoneNumber = None \<rparr>"
  let ?resp = "\<lparr> pp_success = True, pp_transactionId = ''900'', pp_reference = ''900'',
                  pp_paymentUrl = None, pp_error = None \<rparr>"
  have a: "find (\<lambda>w. w_id w = ct_walletId ?dto) (wallets demoDb) = Some demoWallet2
           \<and> \<not> (ct_amount ?dto < 0 \<and> w_balance demoWallet2 + ct_amount ?dto < 0)"
    by (simp add: demo_defs)
  have b: "0 < pd_amount ?dep
           \<and> find (\<lambda>u. u_id u = ''renter2'') (users demoDb) = Some demoRenter2
           \<and> pp_success ?resp
           \<and> distinct (map w_id (wallets demoDb))
           \<and> find (\<lambda>w. w_userId w = ''renter2'') (wallets demoDb) = Some demoWallet2"
    by (simp add: demo_defs)
  have c: "0 < pd_amount ?dep
           \<and> find (\<lambda>u. u_id u = ''owner1'') (users demoDb) = Some demoOwner
           \<and> pp_success ?resp
           \<and> find (\<lambda>w. w_userId w = ''owner1'') (wallets demoDb) = None
           \<and> ''w9'' \<notin> w_id ` set (wallets demoDb)"
    by (simp add: demo_defs)
  have w: "w_balance demoWallet2 = 10" "w_id demoWallet2 = ''w2''"
    by (simp_all add: demo_defs)
  from createTransaction_ignores_requested_status
         [of ?dto demoDb demoWallet2 "''t3''" "Some WTS_PENDING" ?dep "''renter2''" demoRenter2
             ?resp demoWallet2 "''w9''" "''t3''"]
       createTransaction_ignores_requested_status
         [of ?dto demoDb demoWallet2 "''t3''" "Some WTS_PENDING" ?dep "''owner1''" demoOwner
             ?resp demoWallet2 "''w9''" "''t3''"]
       a b c w
  show ?thesis
    by simp
qed

text \<open>
  C5 (\<open>payWithWallet\<close> by the renter of a rental that is not yet paid). \<open>wallet\<close> is the
  renter's wallet as \<open>getWalletByUserId\<close> returns it, \<open>s1\<close> the store after that read
  (it differs from \<open>s\<close> only when the wallet had to be created). If the balance covers
  \<open>totalAmount\<close>, the call appends one COMPLETED PAYMENT transaction of \<open>- totalAmount\<close>,
  lowers the balance by \<open>totalAmount\<close> and rewrites the rental with
  \<open>paymentStatus = PAID\<close>, \<open>paymentMethod = WALLET\<close>, \<open>status = PAID\<close>. If it does not, the
  call raises \<open>BadRequestException('Insufficient wallet balance')\<close> and the rental table
  and the transaction table are as before. The equipment row of the rental exists (it is
  a foreign key), wallet ids are distinct and the id for a new wallet is fresh.
\<close>

theorem payWithWallet_pays_or_leaves_rental:
  assumes "find (\<lambda>r. r_id r = rentalId) (rentals s) = Some rental"
    and "r_renterId rental = userId"
    and "r_paymentStatus rental \<noteq> PS_PAID"
    and "getWalletByUserId s nw nt userId = (Inr wallet, s1)"
    and "distinct (map w_id (wallets s))"
    and "nw \<notin> w_id ` set (wallets s)"
    and "find (\<lambda>e. e_id e = r_equipmentId rental) (equipments s) = Some equipment"
  shows "(r_totalAmount rental \<le> w_balance wallet \<longrightarrow>
            (\<exists>tx s'. payWithWallet s nw nt rentalId userId =
                        (Inr (rental\<lparr>r_paymentStatus := PS_PAID, r_paymentMethod := WALLET,
                                    r_status := RS_PAID\<rparr>), s')
               \<and> find (\<lambda>r. r_id r = rentalId) (rentals s') =
                   Some (rental\<lparr>r_paymentStatus := PS_PAID, r_paymentMethod := WALLET,
                                r_status := RS_PAID\<rparr>)
               \<and> walletTransactions s' = walletTransactions s @ [tx]
               \<and> t_walletId tx = w_id wallet \<and> t_type tx = PAYMENT
               \<and> t_amount tx = - r_totalAmount rental \<and> t_status tx = WTS_COMPLETED
               \<and> balanceOf s' (w_id wallet) = Some (w_balance wallet - r_totalAmount rental)))
       \<and> (w_balance wallet < r_totalAmount rental \<longrightarrow>
            payWithWallet s nw nt rentalId userId =
              (Inl (BadRequestException ''Insufficient wallet balance''), s1)
            \<and> rentals s1 = rentals s
            \<and> walletTransactions s1 = walletTransactions s)"
proof -
  note props = getWalletByUserId_Inr [OF assms(4)]
  have row: "find (\<lambda>w. w_id w = w_id wallet) (wallets s1) = Some wallet"
    using assms(4,5,6) by (rule getWalletByUserId_row)
  have upd: "find (\<lambda>r. r_id r = rentalId)
               (updateWhere (\<lambda>r. r_id r = rentalId)
                  (\<lambda>r. r\<lparr>r_paymentStatus := PS_PAID, r_paymentMethod := WALLET, r_status := RS_PAID\<rparr>)
                  (rentals s)) =
             Some (rental\<lparr>r_paymentStatus := PS_PAID, r_paymentMethod := WALLET, r_status := RS_PAID\<rparr>)"
    by (subst find_updateWhere_key) (simp_all add: assms(1))
  show ?thesis
    using assms(1,2,3,4,7) props row upd
    by (simp add: payWithWallet_def createTransaction_def rentalUpdate_def Let_def balanceOf_def
                  balanceOf_increment)
qed

theorem payWithWallet_pays_or_leaves_rental_witness:
  "(find (\<lambda>r. r_id r = ''r1'') (rentals demoDb) = Some demoRental1
      \<and> r_renterId demoRental1 = ''renter1''
      \<and> r_paymentStatus demoRental1 \<noteq> PS_PAID
      \<and> getWalletByUserId demoDb ''w9'' ''t3'' ''renter1'' = (Inr demoWallet1, demoDb)
      \<and> distinct (map w_id (wallets demoDb))
      \<and> ''w9'' \<notin> w_id ` set (wallets demoDb)
      \<and> find (\<lambda>e. e_id e = r_equipmentId demoRental1) (equipments demoDb) = Some demoEquipment
      \<and> r_totalAmount demoRental1 \<le> w_balance demoWallet1)
   \<and> (\<exists>tx s'. payWithWallet demoDb ''w9'' ''t3'' ''r1'' ''renter1'' =
                  (Inr (demoRental1\<lparr>r_paymentStatus := PS_PAID, r_paymentMethod := WALLET,
                                     r_status := RS_PAID\<rparr>), s')
         \<and> find (\<lambda>r. r_id r = ''r1'') (rentals s') =
             Some (demoRental1\<lparr>r_paymentStatus := PS_PAID, r_paymentMethod := WALLET,
                                r_status := RS_PAID\<rparr>)
         \<and> walletTransactions s' = walletTransactions demoDb @ [tx]
         \<and> t_walletId tx = ''w1'' \<and> t_type tx = PAYMENT
         \<and> t_amount tx = - 200 \<and> t_status tx = WTS_COMPLETED
         \<and> balanceOf s' ''w1'' = Some 100)
   \<and> (find (\<lambda>r. r_id r = ''r2'') (rentals demoDb) = Some demoRental2
      \<and> r_renterId demoRental2 = ''renter2''
      \<and> r_paymentStatus demoRental2 \<noteq> PS_PAID
      \<and> getWalletByUserId demoDb ''w9'' ''t3'' ''renter2'' = (Inr demoWallet2, demoDb)
      \<and> find (\<lambda>e. e_id e = r_equipmentId demoRental2) (equipments demoDb) = Some demoEquipment
      \<and> w_balance demoWallet2 < r_totalAmount demoRental2)
   \<and> payWithWallet demoDb ''w9'' ''t3'' ''r2'' ''renter2'' =
       (Inl (BadRequestException ''Insufficient wallet balance''), demoDb)"
proof -
  have d: "distinct (map w_id (wallets demoDb))" "''w9'' \<notin> w_id ` set (wallets demoDb)"
    by (simp_all add: demo_defs)
  have a1: "find (\<lambda>r. r_id r = ''r1'') (rentals demoDb) = Some demoRental1"
    and a2: "r_renterId demoRental1 = ''renter1''"
    and a3: "r_paymentStatus demoRental1 \<noteq> PS_PAID"
    and a4: "getWalletByUserId demoDb ''w9'' ''t3'' ''renter1'' = (Inr demoWallet1, demoDb)"
    and a7: "find (\<lambda>e. e_id e = r_equipmentId demoRental1) (equipments demoDb) = Some demoEquipment"
    and a8: "r_totalAmount demoRental1 \<le> w_balance demoWallet1"
    by (simp_all add: demo_defs getWalletByUserId_def)
  have b1: "find (\<lambda>r. r_id r = ''r2'') (rentals demoDb) = Some demoRental2"
    and b2: "r_renterId demoRental2 = ''renter2''"
    and b3: "r_paymentStatus demoRental2 \<noteq> PS_PAID"
    and b4: "getWalletByUserId demoDb ''w9'' ''t3'' ''renter2'' = (Inr demoWallet2, demoDb)"
    and b7: "find (\<lambda>e. e_id e = r_equipmentId demoRental2) (equipments demoDb) = Some demoEquipment"
    and b8: "w_balance demoWallet2 < r_totalAmount demoRental2"
    by (simp_all add: demo_defs getWalletByUserId_def)
  have v: "w_id demoWallet1 = ''w1''" "w_balance demoWallet1 - r_totalAmount demoRental1 = 100"
    "r_totalAmount demoRental1 = 200"
    by (simp_all add: demo_defs)
  from payWithWallet_pays_or_leaves_rental [OF a1 a2 a3 a4 d a7]
       payWithWallet_pays_or_leaves_rental [OF b1 b2 b3 b4 d b7]
       a1 a2 a3 a4 a7 a8 b1 b2 b3 b4 b7 b8 d v
  show ?thesis
    by simp
qed


section \<open>Rental creation\<close>

lemma totalForPeriod_spec:
  "totalForPeriod period dailyRate days = dailyRate * of_int (specPeriodCount period days)"
proof (cases period)
  case None
  then show ?thesis
    by (simp add: totalForPeriod_def specPeriodCount_def)
next
  case (Some p)
  then show ?thesis
    by (cases p) (simp_all add: totalForPeriod_def specPeriodCount_def)
qed

text \<open>What a successful \<open>create\<close> returns, read off the request and the equipment row.\<close>

lemma create_Inr:
  assumes "fst (create s now nr nw nt dto) = Inr rental"
  shows "\<exists>equipment.
           find (\<lambda>e. e_id e = cr_equipmentId dto \<and> e_deletedAt e = None) (equipments s) = Some equipment
         \<and> r_ownerId rental = e_ownerId equipment
         \<and> r_status rental = RS_PENDING
         \<and> r_dailyRate rental = (case orNumber (cr_dailyRate dto) (e_price equipment) of
                                     None \<Rightarrow> 0 | Some d \<Rightarrow> d)
         \<and> r_pricePeriod rental = orPeriod (cr_pricePeriod dto) (e_pricePeriod equipment)
         \<and> r_totalAmount rental =
             (case orNumber (cr_totalAmount dto) None of
                None \<Rightarrow> totalForPeriod (r_pricePeriod rental) (r_dailyRate rental)
                           (rentalDays (cr_startDate dto) (cr_endDate dto))
              | Some t \<Rightarrow> t)"
  using assms
  by (auto simp: create_def Let_def split: option.splits if_splits)

text \<open>
  The ceiling of a quotient of integers, without the division: \<open>ceil(d / m)\<close> is the
  integer \<open>c\<close> with \<open>(c - 1) \<times> m < d \<le> c \<times> m\<close>.
\<close>

lemma ceiling_div_bounds:
  fixes d m :: int
  assumes "0 < m"
  shows "(\<lceil>(of_int d :: rat) / of_int m\<rceil> - 1) * m < d
       \<and> d \<le> \<lceil>(of_int d :: rat) / of_int m\<rceil> * m"
proof -
  let ?c = "\<lceil>(of_int d :: rat) / of_int m\<rceil>"
  from assms have m: "(0 :: rat) < of_int m"
    by simp
  have lo: "of_int ?c - 1 < (of_int d :: rat) / of_int m"
    using ceiling_correct [of "(of_int d :: rat) / of_int m"] by simp
  have up: "(of_int d :: rat) / of_int m \<le> of_int ?c"
    by (rule le_of_int_ceiling)
  from lo m have "(of_int ?c - 1) * of_int m < (of_int d :: rat)"
    by (simp only: pos_less_divide_eq)
  moreover from up m have "(of_int d :: rat) \<le> of_int ?c * of_int m"
    by (simp only: pos_divide_le_eq)
  ultimately have "(of_int ((?c - 1) * m) :: rat) < of_int d"
    and "(of_int d :: rat) \<le> of_int (?c * m)"
    by simp_all
  then show ?thesis
    by (simp only: of_int_less_iff of_int_le_iff)
qed

text \<open>The day count of the source is the ceiling of the range over 86 400 000 ms.\<close>

lemma rentalDays_ceiling:
  "rentalDays startDate endDate = \<lceil>(of_int (endDate - startDate) :: rat) / 86400000\<rceil>"
  by (simp add: rentalDays_def msPerDay_def)

lemma rentalDays_bounds:
  "(rentalDays startDate endDate - 1) * 86400000 < endDate - startDate
   \<and> endDate - startDate \<le> rentalDays startDate endDate * 86400000"
  using ceiling_div_bounds [of 86400000 "endDate - startDate"]
  by (simp add: rentalDays_def msPerDay_def)

text \<open>
  C6 (the total amount that \<open>create\<close> computes). When the request carries no total amount
  (or 0, which the test \<open>!totalAmount\<close> treats alike), the rental that a successful
  \<open>create\<close> returns has \<open>totalAmount = dailyRate \<times> periodCount\<close>, where
  \<^item> \<open>days = ceil((endDate - startDate) / 1 day)\<close>, one day being 86 400 000 ms: the
    integer with \<open>(days - 1) \<times> 86400000 < endDate - startDate \<le> days \<times> 86400000\<close>;
  \<^item> the period count is the specification's: \<open>days \<times> 8\<close>, \<open>ceil(days/7)\<close>,
    \<open>ceil(days/30)\<close> or \<open>days\<close>;
  \<^item> the daily rate is the request's when it has one that is not 0, else the price of the
    equipment, else 0; the price period is the request's, else the equipment's.
\<close>

theorem create_totalAmount_computed:
  assumes "fst (create s now nr nw nt dto) = Inr rental"
    and "cr_totalAmount dto = None \<or> cr_totalAmount dto = Some 0"
  shows "\<exists>equipment days.
           find (\<lambda>e. e_id e = cr_equipmentId dto \<and> e_deletedAt e = None) (equipments s) = Some equipment
         \<and> days = \<lceil>(of_int (cr_endDate dto - cr_startDate dto) :: rat) / 86400000\<rceil>
         \<and> (days - 1) * 86400000 < cr_endDate dto - cr_startDate dto
         \<and> cr_endDate dto - cr_startDate dto \<le> days * 86400000
         \<and> r_dailyRate rental =
             (case cr_dailyRate dto of
                None \<Rightarrow> (case e_price equipment of None \<Rightarrow> 0 | Some p \<Rightarrow> p)
              | Some d \<Rightarrow>
                  if d = 0 then (case e_price equipment of None \<Rightarrow> 0 | Some p \<Rightarrow> p) else d)
         \<and> r_pricePeriod rental =
             (case cr_pricePeriod dto of None \<Rightarrow> e_pricePeriod equipment | Some p \<Rightarrow> Some p)
         \<and> r_totalAmount rental =
             r_dailyRate rental * of_int (specPeriodCount (r_pricePeriod rental) days)"
proof -
  from create_Inr [OF assms(1)] obtain equipment
    where e: "find (\<lambda>e. e_id e = cr_equipmentId dto \<and> e_deletedAt e = None) (equipments s) =
                Some equipment"
      and rate: "r_dailyRate rental =
                   (case orNumber (cr_dailyRate dto) (e_price equipment) of None \<Rightarrow> 0 | Some d \<Rightarrow> d)"
      and period: "r_pricePeriod rental = orPeriod (cr_pricePeriod dto) (e_pricePeriod equipment)"
      and total: "r_totalAmount rental =
                    (case orNumber (cr_totalAmount dto) None of
                       None \<Rightarrow> totalForPeriod (r_pricePeriod rental) (r_dailyRate rental)
                                  (rentalDays (cr_startDate dto) (cr_endDate dto))
                     | Some t \<Rightarrow> t)"
    by blast
  let ?days = "rentalDays (cr_startDate dto) (cr_endDate dto)"
  have t: "r_totalAmount rental =
             r_dailyRate rental * of_int (specPeriodCount (r_pricePeriod rental) ?days)"
    using total assms(2) by (auto simp: orNumber_def totalForPeriod_spec)
  have r: "r_dailyRate rental =
             (case cr_dailyRate dto of
                None \<Rightarrow> (case e_price equipment of None \<Rightarrow> 0 | Some p \<Rightarrow> p)
              | Some d \<Rightarrow>
                  if d = 0 then (case e_price equipment of None \<Rightarrow> 0 | Some p \<Rightarrow> p) else d)"
    using rate by (simp add: orNumber_def split: option.splits)
  have p: "r_pricePeriod rental =
             (case cr_pricePeriod dto of None \<Rightarrow> e_pricePeriod equipment | Some p \<Rightarrow> Some p)"
    using period by (simp add: orPeriod_def)
  from e t r p rentalDays_ceiling [of "cr_startDate dto" "cr_endDate dto"]
       rentalDays_bounds [of "cr_startDate dto" "cr_endDate dto"]
  show ?thesis
    by blast
qed

lemma demo_create:
  "fst (create demoDb (date_2024_03_01 + msPerHour) ''r3'' ''w9'' ''t3'' (demoCreateDto period))
     = Inr (demoCreated period (totalForPeriod (Some period) 50 4))"
  by (simp add: create_def Let_def demo_defs startOfDay_def rentalDays_def orNumber_def
                orPeriod_def)

text \<open>
  The worked example of the specification: daily rate 50, 1 to 5 March 2024 (4 days);
  DAILY gives 200, HOURLY 1600, WEEKLY 50, MONTHLY 50. Two ranges that are not the
  example's: 3 days and 1 hour count as 4 days (DAILY 200), and 8 days count as 2 weeks
  (WEEKLY 100).
\<close>

theorem create_totalAmount_computed_witness:
  "(cr_totalAmount (demoCreateDto DAILY) = None \<or> cr_totalAmount (demoCreateDto DAILY) = Some 0)
   \<and> \<lceil>(of_int (cr_endDate (demoCreateDto DAILY) - cr_startDate (demoCreateDto DAILY)) :: rat)
         / 86400000\<rceil> = 4
   \<and> fst (create demoDb (date_2024_03_01 + msPerHour) ''r3'' ''w9'' ''t3'' (demoCreateDto DAILY))
       = Inr (demoCreated DAILY 200)
   \<and> fst (create demoDb (date_2024_03_01 + msPerHour) ''r3'' ''w9'' ''t3'' (demoCreateDto HOURLY))
       = Inr (demoCreated HOURLY 1600)
   \<and> fst (create demoDb (date_2024_03_01 + msPerHour) ''r3'' ''w9'' ''t3'' (demoCreateDto WEEKLY))
       = Inr (demoCreated WEEKLY 50)
   \<and> fst (create demoDb (date_2024_03_01 + msPerHour) ''r3'' ''w9'' ''t3'' (demoCreateDto MONTHLY))
       = Inr (demoCreated MONTHLY 50)
   \<and> fst (create demoDb (date_2024_03_01 + msPerHour) ''r3'' ''w9'' ''t3''
            ((demoCreateDto DAILY)\<lparr>cr_endDate := date_2024_03_01 + 3 * msPerDay + msPerHour\<rparr>))
       = Inr ((demoCreated DAILY 200)
                \<lparr>r_endDate := date_2024_03_01 + 3 * msPerDay + msPerHour,
                 r_returnReminderDate := date_2024_03_01 + 2 * msPerDay + msPerHour\<rparr>)
   \<and> fst (create demoDb (date_2024_03_01 + msPerHour) ''r3'' ''w9'' ''t3''
            ((demoCreateDto WEEKLY)\<lparr>cr_endDate := date_2024_03_01 + 8 * msPerDay\<rparr>))
       = Inr ((demoCreated WEEKLY 100)
                \<lparr>r_endDate := date_2024_03_01 + 8 * msPerDay,
                 r_returnReminderDate := date_2024_03_01 + 7 * msPerDay\<rparr>)"
proof -
  have n: "cr_totalAmount (demoCreateDto period) = None \<or> cr_totalAmount (demoCreateDto period) = Some 0"
    for period
    by (simp add: demoCreateDto_def)
  have d: "\<lceil>(of_int (cr_endDate (demoCreateDto period) - cr_startDate (demoCreateDto period)) :: rat)
             / 86400000\<rceil> = 4"
    for period
    by (simp add: demo_defs)
  have t: "totalForPeriod (Some period) 50 4 = 50 * of_int (specPeriodCount (Some period) 4)"
    for period
  proof -
    let ?row = "demoCreated period (totalForPeriod (Some period) 50 4)"
    from create_totalAmount_computed [OF demo_create n, of period]
    obtain days
      where dd: "days =
                   \<lceil>(of_int (cr_endDate (demoCreateDto period) - cr_startDate (demoCreateDto period))
                       :: rat) / 86400000\<rceil>"
        and tt: "r_totalAmount ?row =
                   r_dailyRate ?row * of_int (specPeriodCount (r_pricePeriod ?row) days)"
      by blast
    from dd d have "days = 4"
      by simp
    with tt show ?thesis
      by (simp add: demoCreated_def)
  qed
  have "specPeriodCount (Some DAILY) 4 = 4" "specPeriodCount (Some HOURLY) 4 = 32"
    "specPeriodCount (Some WEEKLY) 4 = 1" "specPeriodCount (Some MONTHLY) 4 = 1"
    by (simp_all add: specPeriodCount_def ceiling_eq_iff)
  with t have v: "totalForPeriod (Some DAILY) 50 4 = 200" "totalForPeriod (Some HOURLY) 50 4 = 1600"
    "totalForPeriod (Some WEEKLY) 50 4 = 50" "totalForPeriod (Some MONTHLY) 50 4 = 50"
    by simp_all
  have x: "fst (create demoDb (date_2024_03_01 + msPerHour) ''r3'' ''w9'' ''t3''
            ((demoCreateDto DAILY)\<lparr>cr_endDate := date_2024_03_01 + 3 * msPerDay + msPerHour\<rparr>))
       = Inr ((demoCreated DAILY 200)
                \<lparr>r_endDate := date_2024_03_01 + 3 * msPerDay + msPerHour,
                 r_returnReminderDate := date_2024_03_01 + 2 * msPerDay + msPerHour\<rparr>)"
    by (simp add: create_def Let_def demo_defs startOfDay_def rentalDays_def orNumber_def
                  orPeriod_def totalForPeriod_def ceiling_eq_iff)
  have y: "fst (create demoDb (date_2024_03_01 + msPerHour) ''r3'' ''w9'' ''t3''
            ((demoCreateDto WEEKLY)\<lparr>cr_endDate := date_2024_03_01 + 8 * msPerDay\<rparr>))
       = Inr ((demoCreated WEEKLY 100)
                \<lparr>r_endDate := date_2024_03_01 + 8 * msPerDay,
                 r_returnReminderDate := date_2024_03_01 + 7 * msPerDay\<rparr>)"
    by (simp add: create_def Let_def demo_defs startOfDay_def rentalDays_def orNumber_def
                  orPeriod_def totalForPeriod_def ceiling_eq_iff)
  from demo_create n d v x y show ?thesis
    by simp
qed

section \<open>The sweep of expired approvals\<close>

lemma updateWhere_absent:
  "find P xs = None \<Longrightarrow> updateWhere P f xs = xs"
  by (induction xs) (auto simp: updateWhere_def split: if_splits)

lemma rentalUpdate_rentals:
  "rentals (snd (rentalUpdate s rid f)) = updateWhere (\<lambda>r. r_id r = rid) f (rentals s)"
  by (cases "find (\<lambda>r. r_id r = rid) (rentals s)")
     (simp_all add: rentalUpdate_def updateWhere_absent)

lemma equipmentUpdate_rentals:
  "rentals (snd (equipmentUpdate s eid f)) = rentals s"
  by (cases "find (\<lambda>e. e_id e = eid) (equipments s)") (simp_all add: equipmentUpdate_def)

lemma updateWhere_insert_key:
  assumes "\<And>x. key (f x) = key x" and "\<And>x. f (f x) = f x"
  shows "updateWhere (\<lambda>x. key x \<in> A) f (updateWhere (\<lambda>x. key x = k) f xs) =
         updateWhere (\<lambda>x. key x \<in> insert k A) f xs"
  by (induction xs) (simp_all add: updateWhere_def assms)

text \<open>One round of the loop: whatever branch is taken, the rental of the round is rewritten.\<close>

lemma cancelLoop_step:
  "\<exists>s1 acc'. cancelLoop s now (rental # rest) acc = cancelLoop s1 now rest acc'
     \<and> rentals s1 =
         updateWhere (\<lambda>r. r_id r = r_id rental) (\<lambda>r. r\<lparr>r_status := RS_CANCELLED\<rparr>) (rentals s)"
proof -
  let ?u = "rentalUpdate s (r_id rental) (\<lambda>r. r\<lparr>r_status := RS_CANCELLED\<rparr>)"
  obtain out s1 where u: "?u = (out, s1)"
    by (cases ?u)
  with rentalUpdate_rentals [of s "r_id rental" "\<lambda>r. r\<lparr>r_status := RS_CANCELLED\<rparr>"]
  have r1: "rentals s1 =
              updateWhere (\<lambda>r. r_id r = r_id rental) (\<lambda>r. r\<lparr>r_status := RS_CANCELLED\<rparr>) (rentals s)"
    by simp
  let ?e = "equipmentUpdate s1 (r_equipmentId rental) (\<lambda>e. e\<lparr>e_isAvailable := True\<rparr>)"
  obtain oute s2 where e: "?e = (oute, s2)"
    by (cases ?e)
  have r2: "rentals s2 = rentals s1"
    using equipmentUpdate_rentals [of s1 "r_equipmentId rental" "\<lambda>e. e\<lparr>e_isAvailable := True\<rparr>"] e
    by simp
  show ?thesis
    using u e r1 r2
    by (auto split: sum.splits option.splits)
qed

lemma cancelLoop_rentals:
  "rentals (snd (cancelLoop s now todo acc)) =
     updateWhere (\<lambda>r. r_id r \<in> r_id ` set todo) (\<lambda>r. r\<lparr>r_status := RS_CANCELLED\<rparr>) (rentals s)"
proof (induction todo arbitrary: s acc)
  case Nil
  show ?case
    by (simp add: updateWhere_def)
next
  case (Cons rental rest)
  from cancelLoop_step [of s now rental rest acc] obtain s1 acc'
    where step: "cancelLoop s now (rental # rest) acc = cancelLoop s1 now rest acc'"
      and r1: "rentals s1 =
                 updateWhere (\<lambda>r. r_id r = r_id rental) (\<lambda>r. r\<lparr>r_status := RS_CANCELLED\<rparr>) (rentals s)"
    by blast
  have "rentals (snd (cancelLoop s now (rental # rest) acc)) =
        updateWhere (\<lambda>r. r_id r \<in> r_id ` set rest) (\<lambda>r. r\<lparr>r_status := RS_CANCELLED\<rparr>) (rentals s1)"
    unfolding step by (rule Cons.IH)
  also have "\<dots> = updateWhere (\<lambda>r. r_id r \<in> insert (r_id rental) (r_id ` set rest))
                     (\<lambda>r. r\<lparr>r_status := RS_CANCELLED\<rparr>) (rentals s)"
    unfolding r1 by (rule updateWhere_insert_key) simp_all
  finally show ?case
    by simp
qed

lemma key_in_filter_iff:
  assumes "distinct (map key xs)" and "x \<in> set xs"
  shows "key x \<in> key ` {y \<in> set xs. P y} \<longleftrightarrow> P x"
proof
  assume "key x \<in> key ` {y \<in> set xs. P y}"
  then obtain y where y: "y \<in> set xs" "P y" "key y = key x"
    by auto
  from assms(1) have "inj_on key (set xs)"
    by (simp add: distinct_map)
  with y assms(2) have "y = x"
    by (auto dest: inj_onD)
  with y show "P x"
    by simp
next
  assume "P x"
  with assms(2) show "key x \<in> key ` {y \<in> set xs. P y}"
    by auto
qed

text \<open>
  C7 (\<open>cancelExpiredApprovedRentals\<close> cancels exactly the expired approvals). With rental
  ids distinct (the primary key), the rental table after the sweep is the table before
  it in which every row with \<open>status = APPROVED\<close>, \<open>paymentStatus = PENDING\<close> and
  \<open>approvedAt \<le> now - timeoutHours\<close> has \<open>status = CANCELLED\<close>, and every other row is
  as it was.
\<close>

theorem cancelExpiredApprovedRentals_cancels_exactly_expired:
  assumes "distinct (map r_id (rentals s))"
  shows "rentals (snd (cancelExpiredApprovedRentals s now timeoutHours)) =
           map (\<lambda>r. if r_status r = RS_APPROVED \<and> r_paymentStatus r = PS_PENDING
                       \<and> (case r_approvedAt r of
                             None \<Rightarrow> False
                           | Some t \<Rightarrow> t \<le> now - timeoutHours * msPerHour)
                    then r\<lparr>r_status := RS_CANCELLED\<rparr> else r) (rentals s)"
  unfolding cancelExpiredApprovedRentals_def Let_def cancelLoop_rentals updateWhere_def
  by (rule map_cong) (simp_all add: key_in_filter_iff [OF assms] isExpired_def)

text \<open>
  The example of the specification, timeout 24 hours: the rental approved 25 hours ago
  is cancelled, the one approved 23 hours ago is untouched.
\<close>

theorem cancelExpiredApprovedRentals_cancels_exactly_expired_witness:
  "distinct (map r_id (rentals sweepDb))
   \<and> rentals (snd (cancelExpiredApprovedRentals sweepDb sweepNow 24)) =
       [demoRental1\<lparr>r_status := RS_CANCELLED, r_approvedAt := Some (sweepNow - 25 * msPerHour)\<rparr>,
        demoRental2\<lparr>r_status := RS_APPROVED, r_approvedAt := Some (sweepNow - 23 * msPerHour)\<rparr>]"
proof -
  have d: "distinct (map r_id (rentals sweepDb))"
    by (simp add: demo_defs)
  from cancelExpiredApprovedRentals_cancels_exactly_expired [OF d, of sweepNow 24] d
  show ?thesis
    by (simp add: demo_defs)
qed

section \<open>Sponsorships\<close>

text \<open>
  C9 (a sponsor with an ACTIVE sponsorship whose window contains \<open>now\<close> cannot create
  another). Whatever the request (target user, equipment, amount, duration),
  \<open>createSponsorship\<close> raises a \<open>BadRequestException\<close> and the store after the call is the
  store before it: no sponsorship row and no wallet transaction is written.
\<close>

theorem createSponsorship_rejects_second_active:
  assumes "a \<in> set (adSponsorships s)"
    and "a_sponsorId a = sponsorId"
    and "a_status a = SP_ACTIVE"
    and "a_startDate a \<le> now"
    and "now \<le> a_endDate a"
  shows "\<exists>msg. createSponsorship s now ns nw nt sponsorId dto = (Inl (BadRequestException msg), s)"
proof -
  from assms have "find (activeInWindow sponsorId now) (adSponsorships s) \<noteq> None"
    by (auto simp: find_None_iff activeInWindow_def)
  then show ?thesis
    by (auto simp: createSponsorship_def Let_def)
qed

theorem createSponsorship_rejects_second_active_witness:
  "demoSponsorship \<in> set (adSponsorships sponsoredDb)
   \<and> a_sponsorId demoSponsorship = ''owner1''
   \<and> a_status demoSponsorship = SP_ACTIVE
   \<and> a_startDate demoSponsorship \<le> date_2024_03_01 + msPerDay
   \<and> date_2024_03_01 + msPerDay \<le> a_endDate demoSponsorship
   \<and> (\<exists>msg. createSponsorship sponsoredDb (date_2024_03_01 + msPerDay) ''a2'' ''w9'' ''t3'' ''owner1''
               \<lparr> cs_targetUserId = Some ''renter1'', cs_equipmentId = None,
                 cs_amount = 50, cs_duration = 3 \<rparr>
             = (Inl (BadRequestException msg), sponsoredDb))"
proof -
  have h: "demoSponsorship \<in> set (adSponsorships sponsoredDb)"
      "a_sponsorId demoSponsorship = ''owner1''"
      "a_status demoSponsorship = SP_ACTIVE"
      "a_startDate demoSponsorship \<le> date_2024_03_01 + msPerDay"
      "date_2024_03_01 + msPerDay \<le> a_endDate demoSponsorship"
    by (simp_all add: demo_defs)
  from createSponsorship_rejects_second_active [OF h] h show ?thesis
    by blast
qed


section \<open>Rental status changes\<close>

lemmas eval_defs =
  updateStatus_def cancelRental_def findOne_def truthy_def rentalUpdate_def equipmentUpdate_def
  approveEffects_def releaseEffects_def updateWhere_def isHeld_def Let_def

lemma findOne_Inr:
  "findOne s rid u = Inr rental \<Longrightarrow>
   find (\<lambda>r. r_id r = rid \<and> r_deletedAt r = None) (rentals s) = Some rental"
  by (simp add: findOne_def split: option.splits if_splits)

lemma find_rental_reject:
  "find (\<lambda>r. r_id r = rid)
     (updateWhere (\<lambda>r. r_equipmentId r = eid \<and> r_status r = RS_PENDING \<and> r_id r \<noteq> rid)
        (\<lambda>r. r\<lparr>r_status := RS_REJECTED\<rparr>) xs) = find (\<lambda>r. r_id r = rid) xs"
  by (rule find_key_updateWhere_other) simp_all

lemma find_rental_update:
  assumes "\<And>r. r_id (f r) = r_id r"
  shows "find (\<lambda>r. r_id r = rid) (updateWhere (\<lambda>r. r_id r = rid) f xs) =
         map_option f (find (\<lambda>r. r_id r = rid) xs)"
  using assms by (rule find_updateWhere_key)






text \<open>
  C3 (the status moves only along the declared state machine; in particular PAID is
  entered only from APPROVED). \<open>updateStatus\<close> does not look at the current status: the
  renter of a PENDING rental asks for PAID, the call succeeds and the rental is PAID,
  although the declared machine has no step from PENDING to PAID.
\<close>

theorem updateStatus_pending_to_paid:
  "r_status demoRental1 = RS_PENDING
   \<and> \<not> specTransition RS_PENDING RS_PAID
   \<and> updateStatus demoDb sweepNow ''r1'' RS_PAID ''renter1'' =
       (Inr (demoRental1\<lparr>r_status := RS_PAID\<rparr>),
        demoDb\<lparr>rentals := [demoRental1\<lparr>r_status := RS_PAID\<rparr>, demoRental2]\<rparr>)"
  by (simp add: eval_defs demo_defs)

text \<open>
  C3 as amended: \<open>updateStatus\<close> checks who the actor is and nothing else. For a rental
  that is not soft-deleted and that the actor may see (\<open>findOne\<close> succeeds), with the
  actor the owner when the request is APPROVED and the renter or the owner when it is
  CANCELLED, and with the equipment row present, the call succeeds and the rental has
  the requested status afterwards, whatever status it had before.
\<close>

theorem updateStatus_sets_requested_status:
  assumes "findOne s rid (Some userId) = Inr rental"
    and "status = RS_APPROVED \<longrightarrow> r_ownerId rental = userId"
    and "status = RS_CANCELLED \<longrightarrow> r_renterId rental = userId \<or> r_ownerId rental = userId"
    and "find (\<lambda>e. e_id e = r_equipmentId rental) (equipments s) = Some e"
  shows "\<exists>updated s'. updateStatus s now rid status userId = (Inr updated, s')
           \<and> r_status updated = status
           \<and> map_option r_status (find (\<lambda>r. r_id r = rid) (rentals s')) = Some status"
proof -
  note R = findOne_Inr [OF assms(1)]
  have rid: "r_id rental = rid"
    using find_Some_mem [OF R] by simp
  from find_weaken [OF R] obtain r0 where r0: "find (\<lambda>r. r_id r = rid) (rentals s) = Some r0"
    by blast
  show ?thesis
    using assms r0 rid
    by (auto simp: updateStatus_def rentalUpdate_def approveEffects_def releaseEffects_def
                   equipmentUpdate_def Let_def find_rental_reject find_rental_update
             split: option.splits)
qed

theorem updateStatus_sets_requested_status_witness:
  "findOne demoDb ''r1'' (Some ''owner1'') = Inr demoRental1
   \<and> findOne demoDb ''r2'' (Some ''renter2'') = Inr demoRental2
   \<and> r_status demoRental1 = RS_PENDING
   \<and> r_status demoRental2 = RS_PENDING
   \<and> r_ownerId demoRental1 = ''owner1''
   \<and> r_renterId demoRental2 = ''renter2''
   \<and> find (\<lambda>e. e_id e = r_equipmentId demoRental1) (equipments demoDb) = Some demoEquipment
   \<and> find (\<lambda>e. e_id e = r_equipmentId demoRental2) (equipments demoDb) = Some demoEquipment
   \<and> (\<exists>updated s'. updateStatus demoDb sweepNow ''r1'' RS_APPROVED ''owner1'' = (Inr updated, s')
          \<and> r_status updated = RS_APPROVED
          \<and> map_option r_status (find (\<lambda>r. r_id r = ''r1'') (rentals s')) = Some RS_APPROVED)
   \<and> (\<exists>updated s'. updateStatus demoDb sweepNow ''r2'' RS_CANCELLED ''renter2'' = (Inr updated, s')
          \<and> r_status updated = RS_CANCELLED
          \<and> map_option r_status (find (\<lambda>r. r_id r = ''r2'') (rentals s')) = Some RS_CANCELLED)
   \<and> (\<exists>updated s'. updateStatus demoDb sweepNow ''r2'' RS_COMPLETED ''renter2'' = (Inr updated, s')
          \<and> r_status updated = RS_COMPLETED
          \<and> map_option r_status (find (\<lambda>r. r_id r = ''r2'') (rentals s')) = Some RS_COMPLETED)"
proof -
  have f1: "findOne demoDb ''r1'' (Some ''owner1'') = Inr demoRental1"
    and f2: "findOne demoDb ''r2'' (Some ''renter2'') = Inr demoRental2"
    by (simp_all add: findOne_def truthy_def demo_defs)
  have o1: "r_ownerId demoRental1 = ''owner1''"
    and o2: "r_renterId demoRental2 = ''renter2''"
    and p: "r_status demoRental1 = RS_PENDING" "r_status demoRental2 = RS_PENDING"
    and e1: "find (\<lambda>e. e_id e = r_equipmentId demoRental1) (equipments demoDb) = Some demoEquipment"
    and e2: "find (\<lambda>e. e_id e = r_equipmentId demoRental2) (equipments demoDb) = Some demoEquipment"
    by (simp_all add: demo_defs)
  have a1: "RS_APPROVED = RS_APPROVED \<longrightarrow> r_ownerId demoRental1 = ''owner1''"
    and a2: "RS_APPROVED = RS_CANCELLED \<longrightarrow>
               r_renterId demoRental1 = ''owner1'' \<or> r_ownerId demoRental1 = ''owner1''"
    using o1 by simp_all
  have b1: "RS_CANCELLED = RS_APPROVED \<longrightarrow> r_ownerId demoRental2 = ''renter2''"
    and b2: "RS_CANCELLED = RS_CANCELLED \<longrightarrow>
               r_renterId demoRental2 = ''renter2'' \<or> r_ownerId demoRental2 = ''renter2''"
    using o2 by simp_all
  have c1: "RS_COMPLETED = RS_APPROVED \<longrightarrow> r_ownerId demoRental2 = ''renter2''"
    and c2: "RS_COMPLETED = RS_CANCELLED \<longrightarrow>
               r_renterId demoRental2 = ''renter2'' \<or> r_ownerId demoRental2 = ''renter2''"
    by simp_all
  from updateStatus_sets_requested_status [OF f1 a1 a2 e1, of sweepNow]
       updateStatus_sets_requested_status [OF f2 b1 b2 e2, of sweepNow]
       updateStatus_sets_requested_status [OF f2 c1 c2 e2, of sweepNow]
       f1 f2 o1 o2 p e1 e2
  show ?thesis
    by blast
qed

text \<open>
  After a cancellation or rejection through \<open>updateStatus\<close> the equipment is released
  exactly when no rental of it is held: this is the check that the claim C4 describes.
\<close>

lemma releaseEffects_equipments:
  assumes "find (\<lambda>e. e_id e = r_equipmentId rental) (equipments s) = Some e"
  shows "releaseEffects s now rental =
           (Inr (),
            if find (isHeld (r_equipmentId rental) now) (rentals s) = None
            then s\<lparr>equipments :=
                     updateWhere (\<lambda>e. e_id e = r_equipmentId rental)
                       (\<lambda>e. e\<lparr>e_isAvailable := True\<rparr>) (equipments s)\<rparr>
            else s)"
  using assms
  by (auto simp: releaseEffects_def equipmentUpdate_def split: option.splits)

text \<open>
  C4 (after any transition to CANCELLED or REJECTED, by \<open>updateStatus\<close>, \<open>cancelRental\<close> or
  the sweep, the equipment is made available if and only if no other rental of it is
  APPROVED, PAID or ACTIVE with \<open>endDate \<ge> now\<close>). \<open>cancelRental\<close> releases the equipment
  without that check. The landlord approves the first request, which rejects the second;
  the second tenant then cancels their request: the call succeeds and the drill is
  available again, while the first rental is still APPROVED and has not ended.
\<close>

theorem cancelRental_releases_held_equipment:
  "updateStatus demoDb sweepNow ''r1'' RS_APPROVED ''owner1'' =
     (Inr (demoRental1\<lparr>r_status := RS_APPROVED\<rparr>), approvedDb)
   \<and> cancelRental approvedDb sweepNow ''r2'' ''renter2'' =
     (Inr (demoRental2\<lparr>r_status := RS_CANCELLED, r_deletedAt := Some sweepNow\<rparr>),
      approvedDb\<lparr>equipments := [demoEquipment\<lparr>e_isAvailable := True\<rparr>],
                rentals :=
                  [demoRental1\<lparr>r_status := RS_APPROVED, r_approvedAt := Some sweepNow\<rparr>,
                   demoRental2\<lparr>r_status := RS_CANCELLED, r_deletedAt := Some sweepNow\<rparr>]\<rparr>)
   \<and> isHeld ''e1'' sweepNow (demoRental1\<lparr>r_status := RS_APPROVED, r_approvedAt := Some sweepNow\<rparr>)"
  by (simp add: eval_defs demo_defs)

end
